theory Spec2Isabelle
  imports Complex_Main
begin

section \<open>Conventions\<close>

text \<open>
  Python floats are modelled as reals: sums, differences, products and quotients are
  exact, and the special values (NaN, infinities) do not occur. A call to a
  collaborator (the broker, the clock) is a value handed to the model, either a
  returned value or a raised exception.
\<close>

datatype 'a outcome = Returned 'a | Raised

section \<open>Toxic-asset ledger (src/core/bad\_bank.py)\<close>

text \<open>A position as the ledger reads it: ticket, symbol, type (0 buy), volume, price_open.\<close>

record position =
  ticket :: int
  symbol :: string
  ptype :: int
  volume :: real
  price_open :: real

text \<open>One entry of toxic_assets; the dictionary keeps insertion order.\<close>

record asset =
  bucket_id :: string
  positions :: "position list"
  frozen_time :: real
  initial_volume :: real
  status :: string

record bad_bank =
  toxic_assets :: "(string \<times> asset) list"
  tithe_balance :: real
  total_tithe_collected :: real
  total_debt_repaid :: real

definition bad_bank_init :: bad_bank where
  "bad_bank_init =
     \<lparr>toxic_assets = [], tithe_balance = 0, total_tithe_collected = 0, total_debt_repaid = 0\<rparr>"

text \<open>register_toxic_asset; the reading of time.time() is the argument now.\<close>

definition register_toxic_asset :: "real \<Rightarrow> string \<Rightarrow> position list \<Rightarrow> bad_bank \<Rightarrow> bad_bank" where
  "register_toxic_asset now bid ps b =
     (if bid \<in> fst ` set (toxic_assets b) then b
      else
        let total_volume = sum_list (map volume ps)
        in b\<lparr>toxic_assets := toxic_assets b @
               [(bid, \<lparr>bucket_id = bid, positions = ps, frozen_time = now,
                       initial_volume = total_volume, status = ''FROZEN''\<rparr>)]\<rparr>)"

text \<open>deposit_tithe returns the accepted amount and the ledger.\<close>

definition deposit_tithe :: "real \<Rightarrow> string \<Rightarrow> bad_bank \<Rightarrow> real \<times> bad_bank" where
  "deposit_tithe amount source_symbol b =
     (if amount \<le> 0 then (0, b)
      else (amount, b\<lparr>tithe_balance := tithe_balance b + amount,
                       total_tithe_collected := total_tithe_collected b + amount\<rparr>))"

text \<open>get_stats: assets_count, tithe_pool, total_collected, total_debt_repaid.\<close>

definition get_stats :: "bad_bank \<Rightarrow> nat \<times> real \<times> real \<times> real" where
  "get_stats b =
     (length (toxic_assets b), tithe_balance b, total_tithe_collected b, total_debt_repaid b)"

text \<open>
  A dictionary received from a collaborator (a tick) is an association list from keys
  to numbers; d.get(k, default) and d[k], which raises KeyError on a missing key.
\<close>

type_synonym pydict = "(string \<times> real) list"

definition dict_get :: "pydict \<Rightarrow> string \<Rightarrow> real \<Rightarrow> real" where
  "dict_get d k dflt = (case map_of d k of None \<Rightarrow> dflt | Some v \<Rightarrow> v)"

definition dict_index :: "pydict \<Rightarrow> string \<Rightarrow> real outcome" where
  "dict_index d k = (case map_of d k of None \<Rightarrow> Raised | Some v \<Rightarrow> Returned v)"

text \<open>The test  sub in s  on strings.\<close>

fun starts_with :: "string \<Rightarrow> string \<Rightarrow> bool" where
  "starts_with [] s = True"
| "starts_with (c # cs) [] = False"
| "starts_with (c # cs) (d # ds) = (c = d \<and> starts_with cs ds)"

fun str_contains :: "string \<Rightarrow> string \<Rightarrow> bool" where
  "str_contains sub [] = (sub = [])"
| "str_contains sub (d # ds) = (starts_with sub (d # ds) \<or> str_contains sub ds)"

text \<open>round(x, 2): to two decimals, a tie going to the even neighbour.\<close>

definition round_half_even :: "real \<Rightarrow> int" where
  "round_half_even y =
     (let f = \<lfloor>y\<rfloor>; d = y - of_int f
      in if d < 1 / 2 then f else if 1 / 2 < d then f + 1 else if even f then f else f + 1)"

definition round2 :: "real \<Rightarrow> real" where
  "round2 x = of_int (round_half_even (x * 100)) / 100"

text \<open>
  The broker is a collaborator with a state of its own: each call takes the broker's
  state and answers with a returned value or an exception, and the next state.
  get_last_tick answers a tick dictionary or None; close_position answers a truth value.
\<close>

record 'b broker =
  get_last_tick :: "'b \<Rightarrow> string \<Rightarrow> pydict option outcome \<times> 'b"
  close_position :: "'b \<Rightarrow> int \<Rightarrow> real \<Rightarrow> bool outcome \<times> 'b"

text \<open>The calls a pass made to the broker, in order, with the answers it got.\<close>

datatype broker_call =
  Last_Tick string "pydict option outcome"
| Close_Position int real "bool outcome"

definition NIBBLE_SIZE :: real where
  "NIBBLE_SIZE = 1 / 100"

text \<open>The first position with volume >= 0.01, with its index in the list.\<close>

fun find_loser :: "position list \<Rightarrow> (nat \<times> position) option" where
  "find_loser [] = None"
| "find_loser (p # ps) =
     (if 1 / 100 \<le> volume p then Some (0, p)
      else map_option (\<lambda>(i, q). (Suc i, q)) (find_loser ps))"

text \<open>
  required_tithe for closing 0.01 lots of the loser at the tick's close price;
  a tick without the key raises.
\<close>

definition required_tithe :: "position \<Rightarrow> pydict \<Rightarrow> real outcome" where
  "required_tithe loser current_tick =
     (case dict_index current_tick (if ptype loser = 0 then ''bid'' else ''ask'') of
        Raised \<Rightarrow> Raised
      | Returned close_price \<Rightarrow>
          let contract_size = (if str_contains ''XAU'' (symbol loser) then 100 else 100000);
              diff = (if ptype loser = 0 then close_price - price_open loser
                      else price_open loser - close_price);
              estimated_loss = diff * NIBBLE_SIZE * contract_size
          in Returned (if 0 \<le> estimated_loss then 0 else \<bar>estimated_loss\<bar>))"

text \<open>
  The branch taken when close_position answered true: the deduction, the loser's
  volume (the position at index i of the bucket's list), its removal below 0.01
  and the removal of an emptied bucket.
\<close>

definition settle_nibble :: "string \<Rightarrow> position list \<Rightarrow> nat \<Rightarrow> position \<Rightarrow> real \<Rightarrow> bad_bank \<Rightarrow> bad_bank" where
  "settle_nibble bucket ps i loser req b =
     (let b1 = b\<lparr>tithe_balance := tithe_balance b - req,
                  total_debt_repaid := total_debt_repaid b + req\<rparr>;
          loser' = loser\<lparr>volume := round2 (volume loser - NIBBLE_SIZE)\<rparr>;
          ps' = (if volume loser' < 1 / 100 then take i ps @ drop (Suc i) ps
                 else ps[i := loser'])
      in if ps' = []
         then b1\<lparr>toxic_assets := filter (\<lambda>(k, a). k \<noteq> bucket) (toxic_assets b1)\<rparr>
         else b1\<lparr>toxic_assets :=
                   map (\<lambda>(k, a). if k = bucket then (k, a\<lparr>positions := ps'\<rparr>) else (k, a))
                     (toxic_assets b1)\<rparr>)"

text \<open>
  The loop of attempt_debt_reduction over the snapshot list(self.toxic_assets.items()).
  The state is the ledger, the broker's state and the calls made so far; the result
  is the value returned, or Raised when a broker call (or a tick lookup) raised:
  the method has no handler, so the exception leaves it.
\<close>

fun debt_loop ::
  "'b broker \<Rightarrow> (string \<times> asset) list \<Rightarrow> bool \<Rightarrow> bad_bank \<times> 'b \<times> broker_call list
     \<Rightarrow> (bad_bank \<times> 'b \<times> broker_call list) \<times> bool outcome" where
  "debt_loop br [] action_taken (b, s, calls) = ((b, s, calls), Returned action_taken)"
| "debt_loop br ((bucket, asset_data) # rest) action_taken (b, s, calls) =
     (let ps = positions asset_data in
      if ps = [] then debt_loop br rest action_taken (b, s, calls)
      else case find_loser ps of
        None \<Rightarrow> debt_loop br rest action_taken (b, s, calls)
      | Some (i, loser) \<Rightarrow>
          let (t, s1) = get_last_tick br s (symbol loser);
              calls1 = calls @ [Last_Tick (symbol loser) t]
          in case t of
            Raised \<Rightarrow> ((b, s1, calls1), Raised)
          | Returned None \<Rightarrow> debt_loop br rest action_taken (b, s1, calls1)
          | Returned (Some current_tick) \<Rightarrow>
              if current_tick = [] then debt_loop br rest action_taken (b, s1, calls1)
              else case required_tithe loser current_tick of
                Raised \<Rightarrow> ((b, s1, calls1), Raised)
              | Returned req \<Rightarrow>
                  if req \<le> tithe_balance b then
                    let (res, s2) = close_position br s1 (ticket loser) NIBBLE_SIZE;
                        calls2 = calls1 @ [Close_Position (ticket loser) NIBBLE_SIZE res]
                    in case res of
                      Raised \<Rightarrow> ((b, s2, calls2), Raised)
                    | Returned True \<Rightarrow>
                        ((settle_nibble bucket ps i loser req b, s2, calls2), Returned True)
                    | Returned False \<Rightarrow> debt_loop br rest action_taken (b, s2, calls2)
                  else debt_loop br rest action_taken (b, s1, calls1))"

definition attempt_debt_reduction ::
  "'b broker \<Rightarrow> bad_bank \<times> 'b \<Rightarrow> (bad_bank \<times> 'b \<times> broker_call list) \<times> bool outcome" where
  "attempt_debt_reduction br = (\<lambda>(b, s).
     if toxic_assets b = [] then ((b, s, []), Returned False)
     else debt_loop br (toxic_assets b) False (b, s, []))"

text \<open>
  What one pass did, read off the ledger before and after, the calls made and the
  value returned: either the pass returned True after exactly one close that the
  broker confirmed, its last call, and the ledger is the one settled nibble away;
  or no close was confirmed and the ledger is untouched.
\<close>

fun is_success :: "broker_call \<Rightarrow> bool" where
  "is_success (Close_Position t v (Returned True)) = True"
| "is_success c = False"

fun closed_volume :: "broker_call \<Rightarrow> real" where
  "closed_volume (Close_Position t v (Returned True)) = v"
| "closed_volume c = 0"

definition pass_ok :: "bad_bank \<Rightarrow> bad_bank \<Rightarrow> broker_call list \<Rightarrow> bool outcome \<Rightarrow> bool" where
  "pass_ok b b' new r =
     (if r = Returned True
      then \<exists>pre t req bucket ps i p.
             new = pre @ [Close_Position t NIBBLE_SIZE (Returned True)] \<and>
             filter is_success pre = [] \<and> 0 \<le> req \<and> req \<le> tithe_balance b \<and>
             b' = settle_nibble bucket ps i p req b
      else b' = b \<and> filter is_success new = [])"

text \<open>A run of the ledger: any sequence of registrations, deposits and passes.\<close>

datatype 'b ledger_op =
  Register real string "position list"
| Deposit real string
| Reduce "'b broker" 'b

fun ledger_step :: "bad_bank \<Rightarrow> 'b ledger_op \<Rightarrow> bad_bank" where
  "ledger_step b (Register now bid ps) = register_toxic_asset now bid ps b"
| "ledger_step b (Deposit amount source_symbol) = snd (deposit_tithe amount source_symbol b)"
| "ledger_step b (Reduce br s) = fst (fst (attempt_debt_reduction br (b, s)))"

definition run_ledger :: "'b ledger_op list \<Rightarrow> bad_bank" where
  "run_ledger ops = foldl ledger_step bad_bank_init ops"

section \<open>Tick pressure analyzer (src/ai\_core/tick\_pressure.py)\<close>

text \<open>
  The analyzer's order-flow state: the two deques of classified volume (maxlen 100),
  the previous mid price (absent until the first tick) and whether the optional
  native engine was loaded.
\<close>

record analyzer =
  buy_volume_buffer :: "real list"
  sell_volume_buffer :: "real list"
  prev_mid :: "real option"
  rust_engine :: bool

definition analyzer_init :: "bool \<Rightarrow> analyzer" where
  "analyzer_init rust =
     \<lparr>buy_volume_buffer = [], sell_volume_buffer = [], prev_mid = None, rust_engine = rust\<rparr>"

text \<open>deque(maxlen=n).append: the last n elements of the extended queue are kept.\<close>

definition deque_append :: "nat \<Rightarrow> 'a list \<Rightarrow> 'a \<Rightarrow> 'a list" where
  "deque_append maxlen q x = drop (Suc (length q) - maxlen) (q @ [x])"

text \<open>The dictionary analyze_order_flow returns; the volumes are absent on the fallback paths.\<close>

record order_flow =
  order_flow_imbalance :: real
  buy_pressure :: real
  sell_pressure :: real
  volumes :: "(real \<times> real) option"

definition neutral_flow :: order_flow where
  "neutral_flow =
     \<lparr>order_flow_imbalance = 0, buy_pressure = 1 / 2, sell_pressure = 1 / 2, volumes = None\<rparr>"

text \<open>The three ways a tick's volume enters the buffers.\<close>

definition add_buy :: "real \<Rightarrow> analyzer \<Rightarrow> analyzer" where
  "add_buy v a = a\<lparr>buy_volume_buffer := deque_append 100 (buy_volume_buffer a) v\<rparr>"

definition add_sell :: "real \<Rightarrow> analyzer \<Rightarrow> analyzer" where
  "add_sell v a = a\<lparr>sell_volume_buffer := deque_append 100 (sell_volume_buffer a) v\<rparr>"

definition add_split :: "real \<Rightarrow> analyzer \<Rightarrow> analyzer" where
  "add_split v a = add_sell (v / 2) (add_buy (v / 2) a)"

text \<open>The classification of one tick into the buffers, and the new previous mid.\<close>

definition classify_tick :: "pydict \<Rightarrow> analyzer \<Rightarrow> analyzer" where
  "classify_tick t a =
     (let last_price = dict_get t ''last'' (dict_get t ''bid'' 0);
          bid_price = dict_get t ''bid'' 0;
          ask_price = dict_get t ''ask'' 0;
          tick_volume = dict_get t ''volume'' 1;
          mid_price = (bid_price + ask_price) / 2;
          prev = (case prev_mid a of None \<Rightarrow> mid_price | Some m \<Rightarrow> m);
          is_quote_update = (\<bar>last_price\<bar> < 1 / 10 ^ 9);
          a1 = (if \<not> is_quote_update
                then (if ask_price \<le> last_price then add_buy tick_volume a
                      else if last_price \<le> bid_price then add_sell tick_volume a
                      else add_split tick_volume a)
                else (if prev < mid_price then add_buy tick_volume a
                      else if mid_price < prev then add_sell tick_volume a
                      else add_split tick_volume a))
      in a1\<lparr>prev_mid := Some mid_price\<rparr>)"

text \<open>
  analyze_order_flow. The tick is None or a dictionary; rust_raises says whether the
  call into the native engine, made when the engine is loaded, raises: the handler
  then returns the neutral answer, the buffers keeping the tick.
\<close>

definition analyze_order_flow :: "bool \<Rightarrow> pydict option \<Rightarrow> analyzer \<Rightarrow> order_flow \<times> analyzer" where
  "analyze_order_flow rust_raises tick a =
     (case tick of
        None \<Rightarrow> (neutral_flow, a)
      | Some t \<Rightarrow>
          if t = [] then (neutral_flow, a)
          else
            let a' = classify_tick t a in
            if rust_engine a' \<and> rust_raises then (neutral_flow, a')
            else
              let buy_vol = sum_list (buy_volume_buffer a');
                  sell_vol = sum_list (sell_volume_buffer a');
                  total_vol = buy_vol + sell_vol
              in if 0 < total_vol
                 then (\<lparr>order_flow_imbalance = (buy_vol - sell_vol) / total_vol,
                        buy_pressure = buy_vol / total_vol,
                        sell_pressure = sell_vol / total_vol,
                        volumes = Some (buy_vol, sell_vol)\<rparr>, a')
                 else (\<lparr>order_flow_imbalance = 0, buy_pressure = 1 / 2,
                        sell_pressure = 1 / 2, volumes = Some (buy_vol, sell_vol)\<rparr>, a'))"

definition calculate_vpin :: "analyzer \<Rightarrow> real" where
  "calculate_vpin a =
     (let buy_vol = sum_list (buy_volume_buffer a);
          sell_vol = sum_list (sell_volume_buffer a);
          total_vol = buy_vol + sell_vol
      in if total_vol \<le> 0 then 0
         else
           let buy_samples = length (buy_volume_buffer a);
               sell_samples = length (sell_volume_buffer a)
           in if buy_samples + sell_samples < 15 then 0
              else \<bar>buy_vol - sell_vol\<bar> / total_vol)"

section \<open>Liquidity mapper (src/ai\_core/liquidity\_mapper.py)\<close>

record wall =
  price :: real
  strength :: nat
  wall_type :: string

text \<open>_process_cluster; the mean of an empty list would divide by zero.\<close>

definition process_cluster :: "real list \<Rightarrow> bool \<Rightarrow> wall outcome" where
  "process_cluster levels is_resistance =
     (if levels = [] then Raised
      else Returned \<lparr>price = sum_list levels / real (length levels),
                     strength = length levels,
                     wall_type = (if is_resistance then ''RESISTANCE'' else ''SUPPORT'')\<rparr>)"

text \<open>
  The loop of _cluster_levels over levels[1:], with levels[i-1] as prev: the threshold
  is the one computed before the loop.
\<close>

fun cluster_loop :: "real \<Rightarrow> bool \<Rightarrow> real \<Rightarrow> real list \<Rightarrow> real list \<Rightarrow> wall list \<Rightarrow> wall list outcome" where
  "cluster_loop threshold is_resistance prev [] current_cluster clusters =
     (if current_cluster \<noteq> []
      then (case process_cluster current_cluster is_resistance of
              Raised \<Rightarrow> Raised
            | Returned w \<Rightarrow> Returned (clusters @ [w]))
      else Returned clusters)"
| "cluster_loop threshold is_resistance prev (x # rest) current_cluster clusters =
     (if x - prev \<le> threshold
      then cluster_loop threshold is_resistance x rest (current_cluster @ [x]) clusters
      else (case process_cluster current_cluster is_resistance of
              Raised \<Rightarrow> Raised
            | Returned w \<Rightarrow> cluster_loop threshold is_resistance x rest [x] (clusters @ [w])))"

definition cluster_levels :: "real list \<Rightarrow> bool \<Rightarrow> wall list outcome" where
  "cluster_levels levels is_resistance =
     (case sort levels of
        [] \<Rightarrow> Returned []
      | l0 # rest \<Rightarrow>
          let avg_price = l0;
              threshold = avg_price * (5 / 10000)
          in cluster_loop threshold is_resistance l0 rest [l0] [])"

text \<open>
  The clustering as the specification words it, to compare: the threshold is 0.05% of
  the anchor (first level) of the cluster being built, so it changes with each new cluster.
\<close>

fun spec_cluster_loop :: "bool \<Rightarrow> real \<Rightarrow> real list \<Rightarrow> real list \<Rightarrow> wall list \<Rightarrow> wall list outcome" where
  "spec_cluster_loop is_resistance prev [] current_cluster clusters =
     (case process_cluster current_cluster is_resistance of
        Raised \<Rightarrow> Raised
      | Returned w \<Rightarrow> Returned (clusters @ [w]))"
| "spec_cluster_loop is_resistance prev (x # rest) current_cluster clusters =
     (if x - prev \<le> hd current_cluster * (5 / 10000)
      then spec_cluster_loop is_resistance x rest (current_cluster @ [x]) clusters
      else (case process_cluster current_cluster is_resistance of
              Raised \<Rightarrow> Raised
            | Returned w \<Rightarrow> spec_cluster_loop is_resistance x rest [x] (clusters @ [w])))"

definition spec_cluster_levels :: "real list \<Rightarrow> bool \<Rightarrow> wall list outcome" where
  "spec_cluster_levels levels is_resistance =
     (case sort levels of
        [] \<Rightarrow> Returned []
      | l0 # rest \<Rightarrow> spec_cluster_loop is_resistance l0 rest [l0] [])"

text \<open>
  The groups of levels behind the walls: the same loop, keeping each closed cluster
  instead of its wall.
\<close>

fun cluster_groups :: "real \<Rightarrow> real \<Rightarrow> real list \<Rightarrow> real list \<Rightarrow> real list list \<Rightarrow> real list list" where
  "cluster_groups threshold prev [] current_cluster groups = groups @ [current_cluster]"
| "cluster_groups threshold prev (x # rest) current_cluster groups =
     (if x - prev \<le> threshold
      then cluster_groups threshold x rest (current_cluster @ [x]) groups
      else cluster_groups threshold x rest [x] (groups @ [current_cluster]))"

definition wall_of :: "bool \<Rightarrow> real list \<Rightarrow> wall" where
  "wall_of is_resistance g =
     \<lparr>price = sum_list g / real (length g), strength = length g,
      wall_type = (if is_resistance then ''RESISTANCE'' else ''SUPPORT'')\<rparr>"

section \<open>Risk manager (src/risk\_manager.py)\<close>

record zone_config =
  zone_pips :: real
  tp_pips :: real
  max_hedges :: int
  min_age_seconds :: real
  hedge_cooldown_seconds :: real
  bucket_close_cooldown_seconds :: real
  emergency_hedge_threshold :: int

text \<open>HedgeState without its lock; the dataclass defaults.\<close>

record hedge_state =
  last_hedge_time :: real
  active_hedges :: int
  total_positions :: int
  zone_width_points :: real
  tp_width_points :: real
  high_vol_mode :: bool
  volatility_scale :: real
  last_volatility_scale_update :: real

definition HedgeState :: hedge_state where
  "HedgeState =
     \<lparr>last_hedge_time = 0, active_hedges = 0, total_positions = 0, zone_width_points = 0,
      tp_width_points = 0, high_vol_mode = False, volatility_scale = 1,
      last_volatility_scale_update = 0\<rparr>"

text \<open>
  The manager's attributes. _last_spread_update is absent until is_spread_healthy
  first runs; _time_offset starts as None.
\<close>

record risk_manager =
  config :: zone_config
  hedge_states :: "string \<rightharpoonup> hedge_state"
  pending_hedges :: "string \<rightharpoonup> real"
  global_position_cap :: int
  spread_history :: "real list"
  max_spread_multiplier :: real
  last_spread_update :: "real option"
  time_offset :: "real option"
  last_offset_calc :: real

definition RiskManager_init :: "zone_config \<Rightarrow> risk_manager" where
  "RiskManager_init zc =
     \<lparr>config = zc, hedge_states = Map.empty, pending_hedges = Map.empty,
      global_position_cap = 10, spread_history = [], max_spread_multiplier = 5 / 2,
      last_spread_update = None, time_offset = None, last_offset_calc = 0\<rparr>"

text \<open>is_spread_healthy; now is the reading of time.time().\<close>

definition is_spread_healthy :: "real \<Rightarrow> real \<Rightarrow> risk_manager \<Rightarrow> bool \<times> risk_manager" where
  "is_spread_healthy now current_spread rm =
     (let last_update = (case last_spread_update rm of None \<Rightarrow> 0 | Some u \<Rightarrow> u);
          rm0 = rm\<lparr>last_spread_update := Some last_update\<rparr>
      in if spread_history rm0 = []
         then (True, rm0\<lparr>spread_history := spread_history rm0 @ [current_spread]\<rparr>)
         else
           let avg_spread = sum_list (spread_history rm0) / real (length (spread_history rm0));
               rm1 = (if 1 < now - last_update
                      then
                        let h = spread_history rm0 @ [current_spread];
                            h' = (if 50 < length h then tl h else h)
                        in rm0\<lparr>spread_history := h', last_spread_update := Some now\<rparr>
                      else rm0)
           in if avg_spread * max_spread_multiplier rm1 < current_spread
              then (False, rm1) else (True, rm1))"

definition get_hedge_state :: "string \<Rightarrow> risk_manager \<Rightarrow> hedge_state \<times> risk_manager" where
  "get_hedge_state symb rm =
     (case hedge_states rm symb of
        None \<Rightarrow> (HedgeState, rm\<lparr>hedge_states := (hedge_states rm)(symb \<mapsto> HedgeState)\<rparr>)
      | Some st \<Rightarrow> (st, rm))"

definition reset_symbol_state :: "string \<Rightarrow> risk_manager \<Rightarrow> risk_manager" where
  "reset_symbol_state symb rm =
     (if symb \<in> dom (hedge_states rm)
      then rm\<lparr>hedge_states := (hedge_states rm)(symb := None)\<rparr>
      else rm)"

text \<open>
  The constants of src.constants.AdaptiveRisk, a module outside the sources at hand:
  they are a parameter of every function that reads them.
\<close>

record adaptive_risk =
  COOLDOWN_BASE :: real
  COOLDOWN_MIN :: real
  COOLDOWN_MAX :: real
  VOL_LOW :: real
  VOL_HIGH :: real
  VOL_EXTREME :: real
  ZONE_MAX :: real

definition calculate_adaptive_factors :: "adaptive_risk \<Rightarrow> real \<Rightarrow> real \<times> real" where
  "calculate_adaptive_factors ar atr =
     (if atr \<le> 0 then (COOLDOWN_BASE ar, 1)
      else
        let baseline = 2;
            vol_ratio = atr / baseline;
            cooldown = (if vol_ratio < VOL_LOW ar then COOLDOWN_MIN ar
                        else if VOL_EXTREME ar < vol_ratio then COOLDOWN_MAX ar
                        else if VOL_HIGH ar < vol_ratio then 15
                        else COOLDOWN_BASE ar);
            zone_mult = (if 1 < vol_ratio then max 1 vol_ratio else 1)
        in (cooldown, zone_mult))"

text \<open>A position of the group: the keys ticket, symbol, type, volume, price_open and time.\<close>

record hposition = position +
  time :: real

text \<open>The expression  float(atr_val) if atr_val else 0.0.\<close>

definition atr_or_zero :: "real option \<Rightarrow> real" where
  "atr_or_zero atr_val = (case atr_val of None \<Rightarrow> 0 | Some a \<Rightarrow> a)"

definition is_metal :: "string \<Rightarrow> bool" where
  "is_metal symb = (str_contains ''XAU'' symb \<or> str_contains ''GOLD'' symb)"

text \<open>
  What the collaborators answer during one call of execute_zone_recovery, each of them
  asked at most once: the readings of time.time() in the order of the source, the two
  environment variables, the broker, the hedge coordinator, the position manager and
  the sizing module. The order handed to execute_order is the argument of its answer;
  an answer without a ticket (None, or a result whose ticket is missing or 0) is
  Returned None.
\<close>

datatype action = BUY | SELL

record order =
  order_symbol :: string
  order_type :: action
  order_price :: real
  order_volume :: real
  order_strict :: bool
  order_zone :: int

record collaborators =
  t_entry :: real
  t_mark :: real
  t_fresh :: real
  t_spread :: real
  t_tick :: real
  t_cooldown :: real
  t_hedge :: real
  enable_freshness :: bool
  fresh_tick_max_age :: "real outcome"
  is_trade_allowed :: "bool outcome"
  can_hedge_bucket :: "bool outcome"
  get_positions :: "hposition list option outcome"
  get_tick :: "pydict option outcome"
  analyze_hedge_decision :: "(bool \<times> real) outcome"
  execute_order :: "order \<Rightarrow> int option outcome"
  record_hedge_raises :: bool
  add_position_to_bucket_raises :: bool

text \<open>The result of validate_hedge_conditions, one constructor per reason string.\<close>

datatype verdict =
  Conditions_met
| No_positions
| Spread_unhealthy
| Max_hedges_reached
| Failed_to_fetch
| Global_cap_reached
| Position_too_young
| Distance_too_small
| Cooldown_active

text \<open>
  The checks of validate_hedge_conditions that follow the spread check, in the order
  of the source: they read the manager and the symbol's state and change nothing.
\<close>

definition hedge_checks ::
  "adaptive_risk \<Rightarrow> collaborators \<Rightarrow> string \<Rightarrow> hposition list \<Rightarrow> pydict \<Rightarrow> real option
     \<Rightarrow> int option \<Rightarrow> hedge_state \<Rightarrow> risk_manager \<Rightarrow> verdict outcome" where
  "hedge_checks ar env symb ps tick atr_val max_hedges_override state m =
     (let limit = (case max_hedges_override of None \<Rightarrow> max_hedges (config m) | Some x \<Rightarrow> x)
      in if limit \<le> int (length ps) then Returned Max_hedges_reached
         else case get_positions env of
           Raised \<Rightarrow> Raised
         | Returned None \<Rightarrow> Returned Failed_to_fetch
         | Returned (Some all_positions) \<Rightarrow>
             if global_position_cap m \<le> int (length all_positions)
             then Returned Global_cap_reached
             else case get_tick env of
               Raised \<Rightarrow> Raised
             | Returned None \<Rightarrow> Raised
             | Returned (Some server_tick) \<Rightarrow>
                 let current_server_time = dict_get server_tick ''time'' (t_tick env);
                     sorted_pos = sort_key time ps;
                     last_pos = last sorted_pos;
                     age_since_last = current_server_time - time last_pos
                 in if age_since_last < min_age_seconds (config m)
                    then Returned Position_too_young
                    else
                      let last_price = price_open last_pos;
                          last_type = ptype last_pos
                      in case dict_index tick (if last_type = 0 then ''bid'' else ''ask'') of
                        Raised \<Rightarrow> Raised
                      | Returned current_price \<Rightarrow>
                          let dist = \<bar>current_price - last_price\<bar>;
                              atr_price = (case atr_val of None \<Rightarrow> 2
                                           | Some a \<Rightarrow> if 0 < a then a else 2);
                              dynamic_min_dist = atr_price * (25 / 100);
                              min_floor = (if is_metal symb then 2 else 20 / 10000);
                              final_min_dist = max min_floor dynamic_min_dist
                          in if dist < final_min_dist then Returned Distance_too_small
                             else
                               let dynamic_cooldown =
                                     fst (calculate_adaptive_factors ar (atr_or_zero atr_val));
                                   time_since_hedge = t_cooldown env - last_hedge_time state
                               in if time_since_hedge < dynamic_cooldown
                                  then Returned Cooldown_active
                                  else Returned Conditions_met)"

text \<open>
  validate_hedge_conditions: the symbol's state is fetched (and created when missing),
  a positive spread is checked and may be recorded, then the remaining checks run.
  A broker answer of None to get_tick raises at its .get, as does a tick without the
  bid or ask that is read.
\<close>

definition validate_hedge_conditions ::
  "adaptive_risk \<Rightarrow> collaborators \<Rightarrow> string \<Rightarrow> hposition list \<Rightarrow> pydict \<Rightarrow> real \<Rightarrow> real option
     \<Rightarrow> int option \<Rightarrow> risk_manager \<Rightarrow> verdict outcome \<times> risk_manager" where
  "validate_hedge_conditions ar env symb ps tick point atr_val max_hedges_override m =
     (if ps = [] then (Returned No_positions, m)
      else
        let (state, m1) = get_hedge_state symb m;
            current_spread = dict_get tick ''spread'' 0;
            (healthy, m2) = (if 0 < current_spread
                             then is_spread_healthy (t_spread env) current_spread m1
                             else (True, m1))
        in if \<not> healthy then (Returned Spread_unhealthy, m2)
           else (hedge_checks ar env symb ps tick atr_val max_hedges_override state m2, m2))"

text \<open>calculate_zone_parameters; with atr_val None the product atr_val * pip_multiplier raises.\<close>

definition calculate_zone_parameters ::
  "adaptive_risk \<Rightarrow> hposition list \<Rightarrow> real \<Rightarrow> real option \<Rightarrow> (real \<times> real) outcome" where
  "calculate_zone_parameters ar ps point atr_val =
     (let symb = (case ps of [] \<Rightarrow> [] | p # _ \<Rightarrow> symbol p);
          pip_multiplier = (if is_metal symb \<or> str_contains ''JPY'' symb then 100 else 10000);
          num_positions = length ps;
          zone_pips0 = (if num_positions = 2 then 30 else if 3 \<le> num_positions then 50 else 20);
          zone_mult = snd (calculate_adaptive_factors ar (atr_or_zero atr_val));
          effective_zone = min (zone_pips0 * zone_mult) (ZONE_MAX ar);
          zone_pips1 = (if 11 / 10 < zone_mult then effective_zone else zone_pips0)
      in case atr_val of
        None \<Rightarrow> Raised
      | Some a \<Rightarrow>
          let atr_pips = a * pip_multiplier;
              zone_pips2 = (if 50 < atr_pips then max zone_pips1 (atr_pips * (8 / 10))
                            else zone_pips1);
              slippage_pad_pips = (if 20 < atr_pips then atr_pips * (10 / 100) else 0);
              tp_pips2 = zone_pips2 + slippage_pad_pips
          in Returned (zone_pips2 * point, tp_pips2 * point))"

text \<open>The state of the group's trade in position_manager.active_learning_trades.\<close>

record trade_metadata =
  hedge_plan :: "int \<rightharpoonup> real"
  entry_atr :: "real option"
  current_hedge_level :: "int option"

definition no_metadata :: trade_metadata where
  "no_metadata = \<lparr>hedge_plan = Map.empty, entry_atr = None, current_hedge_level = None\<rparr>"

text \<open>
  Everything one call can change: the manager, the position manager's trades and
  buckets, the hedges recorded by the coordinator and the orders the broker was
  handed, each with its answer.
\<close>

record world =
  rm :: risk_manager
  active_learning_trades :: "int \<rightharpoonup> trade_metadata"
  orders :: "(order \<times> int option outcome) list"
  recorded :: "((string \<times> int) \<times> action \<times> real \<times> real) list"
  bucket_adds :: "((string \<times> int) \<times> int) list"

definition set_pending :: "string \<Rightarrow> real \<Rightarrow> world \<Rightarrow> world" where
  "set_pending symb t w = w\<lparr>rm := (rm w)\<lparr>pending_hedges := (pending_hedges (rm w))(symb \<mapsto> t)\<rparr>\<rparr>"

definition pop_pending :: "string \<Rightarrow> world \<Rightarrow> world" where
  "pop_pending symb w = w\<lparr>rm := (rm w)\<lparr>pending_hedges := (pending_hedges (rm w))(symb := None)\<rparr>\<rparr>"

definition put_state :: "string \<Rightarrow> hedge_state \<Rightarrow> world \<Rightarrow> world" where
  "put_state symb st w = w\<lparr>rm := (rm w)\<lparr>hedge_states := (hedge_states (rm w))(symb \<mapsto> st)\<rparr>\<rparr>"

text \<open>The freshness gate: whether the tick is refused as stale, and the offset it stored.\<close>

definition freshness_gate :: "collaborators \<Rightarrow> pydict \<Rightarrow> risk_manager \<Rightarrow> bool outcome \<times> risk_manager" where
  "freshness_gate env tick m =
     (if \<not> enable_freshness env then (Returned False, m)
      else
        let now = t_fresh env;
            tick_ts = dict_get tick ''time'' 0;
            should_recalc = (time_offset m = None \<or> 3600 < now - last_offset_calc m);
            m1 = (if should_recalc \<and> 0 < tick_ts
                  then
                    let raw_diff = now - tick_ts
                    in m\<lparr>time_offset := Some (if 600 < \<bar>raw_diff\<bar> then raw_diff else 0),
                         last_offset_calc := now\<rparr>
                  else m);
            offset = (case time_offset m1 of None \<Rightarrow> 0 | Some x \<Rightarrow> x);
            tick_age = (if 0 < tick_ts then Some \<bar>now - (tick_ts + offset)\<bar>
                        else map_of tick ''tick_age_s'')
        in case fresh_tick_max_age env of
          Raised \<Rightarrow> (Raised, m1)
        | Returned max_tick_age \<Rightarrow>
            (Returned (0 < max_tick_age \<and>
                       (case tick_age of None \<Rightarrow> True | Some age \<Rightarrow> max_tick_age < age)), m1))"

text \<open>The volatility regime of the symbol's state, updated under its lock.\<close>

definition update_volatility :: "real \<Rightarrow> hedge_state \<Rightarrow> hedge_state" where
  "update_volatility volatility_ratio st =
     (if 25 / 10 \<le> volatility_ratio
      then
        let log_scale = 1 + ln (max volatility_ratio 2 / 2) * (5 / 10)
        in st\<lparr>high_vol_mode := True, volatility_scale := max 1 (min log_scale (125 / 100))\<rparr>
      else if volatility_ratio \<le> 2
      then st\<lparr>high_vol_mode := False, volatility_scale := 1\<rparr>
      else st)"

text \<open>The zone (lower, upper) around the first position, with the stored plan's trigger.\<close>

definition zone_levels :: "hposition \<Rightarrow> real \<Rightarrow> real option \<Rightarrow> int \<Rightarrow> real \<times> real" where
  "zone_levels first_pos zone_width stored hedge_level =
     (let (lower_level, upper_level) =
            (if ptype first_pos = 0
             then (price_open first_pos - zone_width, price_open first_pos)
             else (price_open first_pos, price_open first_pos + zone_width))
      in case stored of
        None \<Rightarrow> (lower_level, upper_level)
      | Some stored_trigger_price \<Rightarrow>
          if 0 < stored_trigger_price
          then (if ptype first_pos = 0
                then (if hedge_level mod 2 \<noteq> 0 then (stored_trigger_price, upper_level)
                      else (lower_level, stored_trigger_price))
                else (if hedge_level mod 2 \<noteq> 0 then (lower_level, stored_trigger_price)
                      else (stored_trigger_price, upper_level)))
          else (lower_level, upper_level))"

text \<open>next_action and target_price; tick['bid'] and tick['ask'] raise on a missing key.\<close>

definition zone_trigger ::
  "hposition \<Rightarrow> nat \<Rightarrow> pydict \<Rightarrow> real \<Rightarrow> real \<Rightarrow> real \<Rightarrow> (action \<times> real) option outcome" where
  "zone_trigger first_pos n tick lower_level upper_level epsilon =
     (case dict_index tick ''bid'' of
        Raised \<Rightarrow> Raised
      | Returned tick_bid \<Rightarrow>
          if tick_bid \<le> lower_level + epsilon
          then (if ptype first_pos = 0 \<or> (ptype first_pos = 1 \<and> n mod 2 = 0)
                then Returned (Some (SELL, tick_bid)) else Returned None)
          else case dict_index tick ''ask'' of
            Raised \<Rightarrow> Raised
          | Returned tick_ask \<Rightarrow>
              if upper_level - epsilon \<le> tick_ask
              then (if ptype first_pos = 1 \<or> (ptype first_pos = 0 \<and> n mod 2 = 0)
                    then Returned (Some (BUY, tick_ask)) else Returned None)
              else Returned None)"

definition elastic_wait :: "action \<Rightarrow> real option \<Rightarrow> bool" where
  "elastic_wait next_action rsi_value =
     (case rsi_value of
        None \<Rightarrow> False
      | Some rsi \<Rightarrow> (next_action = BUY \<and> rsi < 30) \<or> (next_action = SELL \<and> 70 < rsi))"

text \<open>int(x): truncation towards zero.\<close>

definition int_trunc :: "real \<Rightarrow> int" where
  "int_trunc x = (if 0 \<le> x then \<lfloor>x\<rfloor> else \<lceil>x\<rceil>)"

text \<open>The pressure metrics read by the veto: chemistry.vpin and physics.reynolds_number.\<close>

record pressure_metrics =
  vpin :: real
  reynolds_number :: real

text \<open>
  The branch of execute_zone_recovery after the broker answered with a ticket: the
  coordinator records the hedge, the hedge level of the group's trade advances, the
  symbol's state counts the hedge and the ticket joins the bucket. The marker is not
  touched here. Either external call may raise, which the handler of the body catches.
\<close>

definition confirm_hedge ::
  "collaborators \<Rightarrow> string \<Rightarrow> hposition \<Rightarrow> trade_metadata \<Rightarrow> int \<Rightarrow> hedge_state \<Rightarrow> action
     \<Rightarrow> real \<Rightarrow> real \<Rightarrow> int \<Rightarrow> world \<Rightarrow> world \<times> bool outcome" where
  "confirm_hedge env symb first_pos metadata hedge_level st next_action hedge_lot target_price
       new_ticket w =
     (let bucket = (symb, ticket first_pos) in
      if record_hedge_raises env then (w, Raised)
      else
        let w1 = w\<lparr>recorded := recorded w @ [(bucket, next_action, hedge_lot, target_price)]\<rparr>;
            new_hedge_level = hedge_level + 1;
            metadata' = metadata\<lparr>current_hedge_level := Some new_hedge_level\<rparr>;
            w2 = w1\<lparr>active_learning_trades :=
                      (active_learning_trades w1)(ticket first_pos \<mapsto> metadata')\<rparr>;
            st' = st\<lparr>last_hedge_time := t_hedge env, active_hedges := active_hedges st + 1\<rparr>;
            w3 = put_state symb st' w2
        in if add_position_to_bucket_raises env then (w3, Raised)
           else (w3\<lparr>bucket_adds := bucket_adds w3 @ [(bucket, new_ticket)]\<rparr>, Returned True))"

text \<open>
  The try block of execute_zone_recovery, in two parts. The first part is every test
  of the block up to the order, in the order of the source; it changes nothing apart
  from the volatility regime of the symbol's state, stored between the pressure veto
  and the zone levels, so what it finds says whether that store had happened:
  a return of False or an exception before it or after it, the return of True for a
  zone already covered, or the order to submit.
\<close>

datatype decision =
  Reject_before_update
| Raise_before_update
| Reject_after_update
| Raise_after_update
| Zone_satisfied
| Submit order

definition hedge_level_of :: "trade_metadata \<Rightarrow> hposition list \<Rightarrow> int" where
  "hedge_level_of metadata ps =
     (let saved_hedge_level = (case current_hedge_level metadata of None \<Rightarrow> 0 | Some l \<Rightarrow> l)
      in if saved_hedge_level \<noteq> 0 then saved_hedge_level else max 0 (int (length ps) - 1))"

definition recovery_decision ::
  "adaptive_risk \<Rightarrow> collaborators \<Rightarrow> string \<Rightarrow> hposition list \<Rightarrow> pydict \<Rightarrow> real \<Rightarrow> bool
     \<Rightarrow> real option \<Rightarrow> real \<Rightarrow> real option \<Rightarrow> pressure_metrics option \<Rightarrow> hedge_state \<Rightarrow> hposition
     \<Rightarrow> trade_metadata \<Rightarrow> decision" where
  "recovery_decision ar env symb ps tick point strict_entry atr_val volatility_ratio rsi_value
       pressure st first_pos metadata =
     (let sorted_pos = sort_key time ps;
          last_pos = last sorted_pos;
          atr_given = (case atr_val of None \<Rightarrow> False | Some a \<Rightarrow> 0 < a);
          entry_given = (case entry_atr metadata of None \<Rightarrow> False | Some a \<Rightarrow> 0 < a)
      in if \<not> atr_given \<and> \<not> entry_given then Reject_before_update
      else
        let hedge_level = hedge_level_of metadata ps;
            stored = hedge_plan metadata hedge_level
        in case calculate_zone_parameters ar ps point atr_val of
          Raised \<Rightarrow> Raise_before_update
        | Returned (zone_width0, tp_width) \<Rightarrow>
            if (case pressure of None \<Rightarrow> False | Some pm \<Rightarrow> 6 / 10 < vpin pm)
            then Reject_before_update
            else
              let zone_width1 = (case pressure of None \<Rightarrow> zone_width0
                                 | Some pm \<Rightarrow> if 2000 < reynolds_number pm
                                              then zone_width0 * (125 / 100) else zone_width0);
                  st1 = update_volatility volatility_ratio st;
                  scale_factor = volatility_scale st1;
                  zone_width2 = (if 1 < scale_factor then zone_width1 * scale_factor
                                 else zone_width1);
                  (lower_level, upper_level) = zone_levels first_pos zone_width2 stored hedge_level;
                  epsilon = point * (1 / 10)
              in case zone_trigger first_pos (length ps) tick lower_level upper_level epsilon of
                Raised \<Rightarrow> Raise_after_update
              | Returned None \<Rightarrow> Reject_after_update
              | Returned (Some (next_action, target_price)) \<Rightarrow>
                  if elastic_wait next_action rsi_value then Reject_after_update
                  else if (next_action = BUY \<and> ptype last_pos = 0) \<or>
                          (next_action = SELL \<and> ptype last_pos = 1)
                  then Reject_after_update
                  else case analyze_hedge_decision env of
                    Raised \<Rightarrow> Raise_after_update
                  | Returned (should_hedge, hedge_size) \<Rightarrow>
                      if \<not> should_hedge then Reject_after_update
                      else
                        let total_required_hedge = hedge_size;
                            friendly = (if next_action = BUY then 0 else 1);
                            current_friendly_volume =
                              sum_list (map volume (filter (\<lambda>p. ptype p = friendly) ps));
                            hedge_lot = total_required_hedge - current_friendly_volume
                        in if hedge_lot < 1 / 100 then Zone_satisfied
                           else if point = 0 then Raise_after_update
                           else Submit
                                  \<lparr>order_symbol = symb, order_type = next_action,
                                   order_price = target_price, order_volume = hedge_lot,
                                   order_strict = strict_entry,
                                   order_zone = int_trunc (zone_width2 / point)\<rparr>)"

text \<open>
  The second part: what the block does with the decision. Every return of False and
  the return of True without an order remove the marker; an exception leaves the
  block with the state as it is (the handler of the caller removes the marker); the
  order goes to the broker, and only an answer with a ticket that is not 0 reaches
  confirm_hedge. st is the symbol's HedgeState fetched just before the block,
  first_pos the oldest position. The division by point in the order's comment raises
  when point is 0, before the broker is called.
\<close>

definition recovery_body ::
  "adaptive_risk \<Rightarrow> collaborators \<Rightarrow> string \<Rightarrow> hposition list \<Rightarrow> pydict \<Rightarrow> real \<Rightarrow> bool
     \<Rightarrow> real option \<Rightarrow> real \<Rightarrow> real option \<Rightarrow> pressure_metrics option \<Rightarrow> hedge_state \<Rightarrow> hposition
     \<Rightarrow> world \<Rightarrow> world \<times> bool outcome" where
  "recovery_body ar env symb ps tick point strict_entry atr_val volatility_ratio rsi_value
       pressure st first_pos w =
     (let first_ticket = ticket first_pos;
          metadata = (case active_learning_trades w first_ticket of
                        None \<Rightarrow> no_metadata | Some x \<Rightarrow> x);
          st1 = update_volatility volatility_ratio st;
          w1 = put_state symb st1 w
      in case recovery_decision ar env symb ps tick point strict_entry atr_val volatility_ratio
                rsi_value pressure st first_pos metadata of
        Reject_before_update \<Rightarrow> (pop_pending symb w, Returned False)
      | Raise_before_update \<Rightarrow> (w, Raised)
      | Reject_after_update \<Rightarrow> (pop_pending symb w1, Returned False)
      | Raise_after_update \<Rightarrow> (w1, Raised)
      | Zone_satisfied \<Rightarrow> (pop_pending symb w1, Returned True)
      | Submit ord \<Rightarrow>
          let result = execute_order env ord;
              w2 = w1\<lparr>orders := orders w1 @ [(ord, result)]\<rparr>
          in case result of
            Raised \<Rightarrow> (w2, Raised)
          | Returned None \<Rightarrow> (pop_pending symb w2, Returned False)
          | Returned (Some new_ticket) \<Rightarrow>
              if new_ticket = 0 then (pop_pending symb w2, Returned False)
              else confirm_hedge env symb first_pos metadata (hedge_level_of metadata ps) st1
                     (order_type ord) (order_volume ord) (order_price ord) new_ticket w2)"

text \<open>
  The gates of execute_zone_recovery between the setting of the marker and the try
  block, in the order of the source: the strict-entry test, the freshness gate, the
  broker's permission (the only gate with a handler: an exception there is a
  refusal), the oldest position, the coordinator and validate_hedge_conditions. A gate
  refuses (the caller removes the marker and returns False), raises (no handler: the
  exception leaves the method) or lets the call through with the symbol's state and
  the oldest position. An empty list of positions raises at sorted(positions)[0].
\<close>

datatype gate = Gate_rejected | Gate_raised | Gate_passed hedge_state hposition

definition entry_gates ::
  "adaptive_risk \<Rightarrow> collaborators \<Rightarrow> string \<Rightarrow> hposition list \<Rightarrow> pydict \<Rightarrow> real \<Rightarrow> bool
     \<Rightarrow> real option \<Rightarrow> real option \<Rightarrow> int option \<Rightarrow> world \<Rightarrow> gate \<times> world" where
  "entry_gates ar env symb ps tick point strict_entry atr_val rsi_value max_hedges_override w0 =
     (if strict_entry \<and>
         (rsi_value = None \<or> (case atr_val of None \<Rightarrow> True | Some a \<Rightarrow> a \<le> 0))
      then (Gate_rejected, w0)
      else case freshness_gate env tick (rm w0) of
        (Raised, m1) \<Rightarrow> (Gate_raised, w0\<lparr>rm := m1\<rparr>)
      | (Returned stale, m1) \<Rightarrow>
          let w1 = w0\<lparr>rm := m1\<rparr> in
          if stale then (Gate_rejected, w1)
          else case is_trade_allowed env of
            Raised \<Rightarrow> (Gate_rejected, w1)
          | Returned False \<Rightarrow> (Gate_rejected, w1)
          | Returned True \<Rightarrow>
              (case sort_key time ps of
                 [] \<Rightarrow> (Gate_raised, w1)
               | first_pos # _ \<Rightarrow>
                   (case can_hedge_bucket env of
                      Raised \<Rightarrow> (Gate_raised, w1)
                    | Returned False \<Rightarrow> (Gate_rejected, w1)
                    | Returned True \<Rightarrow>
                        (case validate_hedge_conditions ar env symb ps tick point atr_val
                                max_hedges_override (rm w1) of
                           (Raised, m2) \<Rightarrow> (Gate_raised, w1\<lparr>rm := m2\<rparr>)
                         | (Returned v, m2) \<Rightarrow>
                             let w2 = w1\<lparr>rm := m2\<rparr> in
                             if v \<noteq> Conditions_met then (Gate_rejected, w2)
                             else
                               let (st, m3) = get_hedge_state symb (rm w2)
                               in (Gate_passed st first_pos, w2\<lparr>rm := m3\<rparr>)))))"

text \<open>
  execute_zone_recovery. ps is the list normalize_positions returned. A call within
  10 seconds of the symbol's marker returns False at once. Otherwise the marker is
  set to the time of the call and the gates run. An exception inside the try block
  is caught: the marker is removed and False returned. A value returned by the block
  is returned as it is, the block having dealt with the marker.
\<close>

definition execute_zone_recovery ::
  "adaptive_risk \<Rightarrow> collaborators \<Rightarrow> string \<Rightarrow> hposition list \<Rightarrow> pydict \<Rightarrow> real \<Rightarrow> bool
     \<Rightarrow> real option \<Rightarrow> real \<Rightarrow> real option \<Rightarrow> pressure_metrics option \<Rightarrow> int option
     \<Rightarrow> world \<Rightarrow> world \<times> bool outcome" where
  "execute_zone_recovery ar env symb ps tick point strict_entry atr_val volatility_ratio rsi_value
       pressure max_hedges_override w =
     (let last_pending = (case pending_hedges (rm w) symb of None \<Rightarrow> 0 | Some t \<Rightarrow> t) in
      if t_entry env - last_pending < 10 then (w, Returned False)
      else
        case entry_gates ar env symb ps tick point strict_entry atr_val rsi_value
               max_hedges_override (set_pending symb (t_mark env) w) of
          (Gate_rejected, w1) \<Rightarrow> (pop_pending symb w1, Returned False)
        | (Gate_raised, w1) \<Rightarrow> (w1, Raised)
        | (Gate_passed st first_pos, w3) \<Rightarrow>
            (case recovery_body ar env symb ps tick point strict_entry atr_val volatility_ratio
                    rsi_value pressure st first_pos w3 of
               (w4, Raised) \<Rightarrow> (pop_pending symb w4, Returned False)
             | (w4, Returned b) \<Rightarrow> (w4, Returned b)))"

section \<open>A worked scenario for the ledger\<close>

text \<open>
  One gold position of 0.02 lots bought at 2000 and quoted at 1995 bid: closing 0.01
  lots realises a loss of 5. A second bucket holds the same position on GBPUSD.
\<close>

definition example_position :: position where
  "example_position =
     \<lparr>ticket = 7, symbol = ''XAUUSD'', ptype = 0, volume = 2 / 100, price_open = 2000\<rparr>"

definition example_tick :: pydict where
  "example_tick = [(''bid'', 1995), (''ask'', 1996)]"

definition example_broker :: "bool \<Rightarrow> unit broker" where
  "example_broker ok =
     \<lparr>get_last_tick = (\<lambda>s symb. (Returned (Some example_tick), s)),
      close_position = (\<lambda>s t v. (Returned ok, s))\<rparr>"

definition example_bank :: "real \<Rightarrow> bad_bank" where
  "example_bank cash =
     snd (deposit_tithe cash ''EURUSD''
       (register_toxic_asset 200 ''GBPUSD_9'' [example_position\<lparr>ticket := 9, symbol := ''GBPUSD''\<rparr>]
         (register_toxic_asset 100 ''XAUUSD_7'' [example_position] bad_bank_init)))"

subsection \<open>Sample inputs for the analyzer\<close>

text \<open>
  Sample ticks: a trade of 3 at the ask, and a print at the bid that carries a
  negative volume.
\<close>

definition quiet_market :: pydict where
  "quiet_market = [(''bid'', 1), (''ask'', 2), (''last'', 2), (''volume'', 3)]"

text \<open>The analyzer after n such trades in a row.\<close>

definition after_buys :: "nat \<Rightarrow> analyzer" where
  "after_buys n = ((\<lambda>a. snd (analyze_order_flow False (Some quiet_market) a)) ^^ n) (analyzer_init False)"

text \<open>Both buffers hold non-negative volumes only.\<close>

definition nonneg_buffers :: "analyzer \<Rightarrow> bool" where
  "nonneg_buffers a =
     (list_all (\<lambda>v. 0 \<le> v) (buy_volume_buffer a) \<and> list_all (\<lambda>v. 0 \<le> v) (sell_volume_buffer a))"

definition negative_print :: pydict where
  "negative_print = [(''bid'', 1), (''ask'', 2), (''last'', 1), (''volume'', - 1)]"

subsection \<open>Clusters of levels\<close>

text \<open>
  A list of groups clusters the ascending levels ls at a threshold: the groups, in
  order, make up ls; inside a group every level is within the threshold of the level
  before it; and the first level of a group is further than the threshold from the
  last level of the group before.
\<close>

definition clustered :: "real \<Rightarrow> real list \<Rightarrow> real list list \<Rightarrow> bool" where
  "clustered threshold ls groups =
     (concat groups = ls \<and>
      list_all (\<lambda>g. g \<noteq> [] \<and> successively (\<lambda>a b. b - a \<le> threshold) g) groups \<and>
      successively (\<lambda>g h. threshold < hd h - last g) groups)"

text \<open>The groups _cluster_levels builds: the threshold is 0.05% of the smallest level.\<close>

definition level_groups :: "real list \<Rightarrow> real list list" where
  "level_groups levels =
     (case sort levels of
        [] \<Rightarrow> []
      | l0 # rest \<Rightarrow> cluster_groups (l0 * (5 / 10000)) l0 rest [l0] [])"

subsection \<open>A sample configuration\<close>

text \<open>A configuration with the dataclass defaults and zones of 20 pips.\<close>

definition example_config :: zone_config where
  "example_config =
     \<lparr>zone_pips = 20, tp_pips = 20, max_hedges = 10, min_age_seconds = 3,
      hedge_cooldown_seconds = 15, bucket_close_cooldown_seconds = 15,
      emergency_hedge_threshold = 10\<rparr>"

subsection \<open>Predicates on a call of the zone recovery\<close>

text \<open>An order the broker confirmed: its answer carries a ticket that is not 0.\<close>

fun is_confirmed :: "order \<times> int option outcome \<Rightarrow> bool" where
  "is_confirmed (ord, Returned (Some t)) = (t \<noteq> 0)"
| "is_confirmed (ord, res) = False"

text \<open>
  The trades with the hedge level of the group's trade, the one of the oldest position,
  one above the level the call worked with.
\<close>

definition advance_hedge_level ::
  "hposition \<Rightarrow> hposition list \<Rightarrow> (int \<rightharpoonup> trade_metadata) \<Rightarrow> (int \<rightharpoonup> trade_metadata)" where
  "advance_hedge_level first_pos ps trades =
     (let metadata = (case trades (ticket first_pos) of None \<Rightarrow> no_metadata | Some x \<Rightarrow> x)
      in trades(ticket first_pos \<mapsto>
           metadata\<lparr>current_hedge_level := Some (hedge_level_of metadata ps + 1)\<rparr>))"

text \<open>The test at the entry of execute_zone_recovery: the symbol's marker is younger than 10 seconds.\<close>

definition debounced :: "collaborators \<Rightarrow> string \<Rightarrow> world \<Rightarrow> bool" where
  "debounced env symb w =
     (t_entry env - (case pending_hedges (rm w) symb of None \<Rightarrow> 0 | Some t \<Rightarrow> t) < 10)"

subsection \<open>A worked scenario for the zone recovery\<close>

text \<open>
  A call that passes every gate: one gold buy of 0.1 lots at 2000, opened 10 seconds
  before the broker's tick, the bid 3 below the open, an ATR of 0.4, a volatility ratio
  of 1, an oscillator at 50 and a VPIN of 0.1. The zone is 20 pips (0.2 in price), the
  bid is below it, the sizing module asks for 0.1 lots: an order to sell 0.1 lots at
  1997 goes to the broker, whose answer is the parameter. The constants of
  AdaptiveRisk are sample values.
\<close>

definition example_risk :: adaptive_risk where
  "example_risk =
     \<lparr>COOLDOWN_BASE = 10, COOLDOWN_MIN = 5, COOLDOWN_MAX = 30, VOL_LOW = 1 / 2,
      VOL_HIGH = 3 / 2, VOL_EXTREME = 5 / 2, ZONE_MAX = 100\<rparr>"

definition example_buy :: hposition where
  "example_buy =
     \<lparr>ticket = 11, symbol = ''XAUUSD'', ptype = 0, volume = 1 / 10, price_open = 2000,
      time = 1000\<rparr>"

definition example_quote :: pydict where
  "example_quote = [(''bid'', 1997), (''ask'', 19972 / 10), (''time'', 1010)]"

definition example_env :: "int option outcome \<Rightarrow> collaborators" where
  "example_env answer =
     \<lparr>t_entry = 1011, t_mark = 1011, t_fresh = 1011, t_spread = 1011, t_tick = 1011,
      t_cooldown = 1011, t_hedge = 1012, enable_freshness = True,
      fresh_tick_max_age = Returned 10, is_trade_allowed = Returned True,
      can_hedge_bucket = Returned True, get_positions = Returned (Some [example_buy]),
      get_tick = Returned (Some example_quote), analyze_hedge_decision = Returned (True, 1 / 10),
      execute_order = (\<lambda>ord. answer), record_hedge_raises = False,
      add_position_to_bucket_raises = False\<rparr>"

definition example_world :: world where
  "example_world =
     \<lparr>rm = RiskManager_init example_config, active_learning_trades = Map.empty, orders = [],
      recorded = [], bucket_adds = []\<rparr>"

definition example_order :: order where
  "example_order =
     \<lparr>order_symbol = ''XAUUSD'', order_type = SELL, order_price = 1997, order_volume = 1 / 10,
      order_strict = False, order_zone = 20\<rparr>"

definition example_call :: "int option outcome \<Rightarrow> world \<times> bool outcome" where
  "example_call answer =
     execute_zone_recovery example_risk (example_env answer) ''XAUUSD'' [example_buy] example_quote
       (1 / 100) False (Some (2 / 5)) 1 (Some 50) (Some \<lparr>vpin = 1 / 10, reynolds_number = 100\<rparr>)
       None example_world"

definition example_gated :: world where
  "example_gated =
     example_world\<lparr>rm := (RiskManager_init example_config)
       \<lparr>hedge_states := [''XAUUSD'' \<mapsto> HedgeState], pending_hedges := [''XAUUSD'' \<mapsto> 1011],
        time_offset := Some 0, last_offset_calc := 1011\<rparr>\<rparr>"

subsection \<open>More sample ticks, and runs of the spread check\<close>

text \<open>A print of volume 1 at the bid, and a trade of volume 0 at the ask.\<close>

definition sell_print :: pydict where
  "sell_print = [(''bid'', 1), (''ask'', 2), (''last'', 1), (''volume'', 1)]"

definition empty_print :: pydict where
  "empty_print = [(''bid'', 1), (''ask'', 2), (''last'', 2), (''volume'', 0)]"

text \<open>
  The paths of analyze_order_flow that answer without reading the buffers: the tick is
  None or empty, or the call into the native engine raised.
\<close>

definition falls_back :: "bool \<Rightarrow> pydict option \<Rightarrow> analyzer \<Rightarrow> bool" where
  "falls_back rust_raises tick a =
     (tick = None \<or> tick = Some [] \<or> (rust_engine a \<and> rust_raises))"


section \<open>Properties\<close>

subsection \<open>The ledger\<close>

lemma required_tithe_nonneg: "required_tithe p t = Returned r \<Longrightarrow> 0 \<le> r"
  by (auto simp: required_tithe_def Let_def split: outcome.splits if_splits)

lemma settle_balance:
  "tithe_balance (settle_nibble k ps i p r b) = tithe_balance b - r"
  "total_debt_repaid (settle_nibble k ps i p r b) = total_debt_repaid b + r"
  "total_tithe_collected (settle_nibble k ps i p r b) = total_tithe_collected b"
  by (simp_all add: settle_nibble_def Let_def)

lemma pass_ok_cons:
  "\<not> is_success c \<Longrightarrow> pass_ok b b' new r \<Longrightarrow> pass_ok b b' (c # new) r"
proof (cases "r = Returned True")
  case True
  assume c: "\<not> is_success c" and ok: "pass_ok b b' new r"
  from ok True obtain pre t req bucket ps i p where
    "new = pre @ [Close_Position t NIBBLE_SIZE (Returned True)]"
    "filter is_success pre = []" "0 \<le> req" "req \<le> tithe_balance b"
    "b' = settle_nibble bucket ps i p req b"
    unfolding pass_ok_def by auto
  with c have "c # new = (c # pre) @ [Close_Position t NIBBLE_SIZE (Returned True)] \<and>
    filter is_success (c # pre) = [] \<and> 0 \<le> req \<and> req \<le> tithe_balance b \<and>
    b' = settle_nibble bucket ps i p req b" by simp
  then show ?thesis unfolding pass_ok_def using True by metis
next
  case False
  assume "\<not> is_success c" "pass_ok b b' new r"
  with False show ?thesis by (simp add: pass_ok_def)
qed

lemma pass_ok_prepend:
  "filter is_success cs = [] \<Longrightarrow> pass_ok b b' new r \<Longrightarrow> pass_ok b b' (cs @ new) r"
  by (induction cs) (auto simp: pass_ok_cons split: if_splits)

lemma debt_loop_shape:
  "debt_loop br items False (b, s, calls) = ((b', s', calls'), r) \<Longrightarrow>
   \<exists>new. calls' = calls @ new \<and> pass_ok b b' new r"
proof (induction items arbitrary: s calls)
  case Nil
  then show ?case by (auto simp: pass_ok_def)
next
  case (Cons x items)
  obtain bucket ad where x: "x = (bucket, ad)" by (cases x)
  have step: "\<exists>new. calls' = calls @ new \<and> pass_ok b b' new r"
    if "filter is_success cs = []"
      and "debt_loop br items False (b, s1, calls @ cs) = ((b', s', calls'), r)"
    for s1 cs
  proof -
    from Cons.IH [OF that(2)] obtain new
      where "calls' = (calls @ cs) @ new" and "pass_ok b b' new r" by blast
    with that(1) have "calls' = calls @ (cs @ new) \<and> pass_ok b b' (cs @ new) r"
      by (simp add: pass_ok_prepend)
    then show ?thesis by blast
  qed
  have stop: "\<exists>new. calls @ cs = calls @ new \<and> pass_ok b b new Raised"
    if "filter is_success cs = []" for cs
    using that by (auto simp: pass_ok_def)
  have win: "\<exists>new. calls @ [c, Close_Position t NIBBLE_SIZE (Returned True)] = calls @ new \<and>
      pass_ok b (settle_nibble bucket ps i p req b) new (Returned True)"
    if "\<not> is_success c" "required_tithe p tk = Returned req" "req \<le> tithe_balance b"
    for c t ps i p req tk
    using that required_tithe_nonneg [OF that(2)]
    by (auto simp: pass_ok_def intro!: exI[where x="[c]"] exI[where x=req])
  show ?case
    using Cons.prems unfolding x
    apply (simp add: Let_def split: if_splits option.splits prod.splits outcome.splits bool.splits)
    subgoal by (rule Cons.IH)
    subgoal by (rule Cons.IH)
    subgoal by (rule step [where cs = "[c]" for c, simplified]) auto
    subgoal by (rule step [where cs = "[c]" for c, simplified]) auto
    subgoal using win by fastforce
    subgoal by (rule step [where cs = "[c, d]" for c d, simplified]) auto
    subgoal using stop [of "[c, d]" for c d] by fastforce
    subgoal by (rule step [where cs = "[c]" for c, simplified]) auto
    subgoal using stop [of "[c]" for c] by fastforce
    subgoal using stop [of "[c]" for c] by fastforce
    done
qed

lemma attempt_debt_reduction_shape:
  "attempt_debt_reduction br (b, s) = ((b', s', calls), r) \<Longrightarrow> pass_ok b b' calls r"
  unfolding attempt_debt_reduction_def
  by (auto simp: pass_ok_def split: if_splits dest: debt_loop_shape)

lemma pass_ok_balance:
  "pass_ok b b' calls r \<Longrightarrow> 0 \<le> tithe_balance b \<Longrightarrow> 0 \<le> tithe_balance b'"
  by (auto simp: pass_ok_def settle_balance split: if_splits)

lemma ledger_step_nonneg:
  assumes "0 \<le> tithe_balance b"
  shows "0 \<le> tithe_balance (ledger_step b x)"
proof (cases x)
  case (Register now bid ps)
  then show ?thesis using assms by (simp add: register_toxic_asset_def Let_def)
next
  case (Deposit amount src)
  then show ?thesis using assms by (simp add: deposit_tithe_def)
next
  case (Reduce br s)
  obtain b' s' calls r where "attempt_debt_reduction br (b, s) = ((b', s', calls), r)"
    by (metis surj_pair)
  then show ?thesis using assms Reduce pass_ok_balance attempt_debt_reduction_shape
    by fastforce
qed

lemma foldl_ledger_nonneg:
  "0 \<le> tithe_balance b \<Longrightarrow> 0 \<le> tithe_balance (foldl ledger_step b ops)"
  by (induction ops arbitrary: b) (simp_all add: ledger_step_nonneg)


lemma example_required: "required_tithe example_position example_tick = Returned 5"
  by (simp add: required_tithe_def example_position_def example_tick_def dict_index_def
      NIBBLE_SIZE_def)

lemma example_round: "round2 (2 / 100 - NIBBLE_SIZE) = 1 / 100"
  by (simp add: round2_def round_half_even_def NIBBLE_SIZE_def Let_def)

lemma example_pass_8:
  "attempt_debt_reduction (example_broker True) (example_bank 8, ()) =
     ((settle_nibble ''XAUUSD_7'' [example_position] 0 example_position 5 (example_bank 8), (),
       [Last_Tick ''XAUUSD'' (Returned (Some example_tick)),
        Close_Position 7 NIBBLE_SIZE (Returned True)]), Returned True)"
  by (simp add: attempt_debt_reduction_def example_bank_def register_toxic_asset_def
      deposit_tithe_def bad_bank_init_def Let_def example_required example_broker_def)
    (simp add: example_position_def example_tick_def)

lemma example_pass_3:
  "attempt_debt_reduction (example_broker True) (example_bank 3, ()) =
     ((example_bank 3, (),
       [Last_Tick ''XAUUSD'' (Returned (Some example_tick)),
        Last_Tick ''GBPUSD'' (Returned (Some example_tick))]), Returned False)"
  apply (simp add: attempt_debt_reduction_def example_bank_def register_toxic_asset_def
      deposit_tithe_def bad_bank_init_def Let_def example_required example_broker_def)
  apply (simp add: example_position_def example_tick_def required_tithe_def dict_index_def NIBBLE_SIZE_def)
  done


text \<open>
  Claim C8. Registering a bucket id the ledger already holds changes nothing: the
  ledger, and with it the asset count, the stored positions and the freeze time, is
  the same ledger; so a second registration of an id, whatever its arguments, leaves
  the result of the first.
\<close>

theorem register_toxic_asset_idempotent:
  "(bid \<in> fst ` set (toxic_assets b) \<longrightarrow>
      register_toxic_asset now bid ps b = b \<and>
      get_stats (register_toxic_asset now bid ps b) = get_stats b) \<and>
   register_toxic_asset now' bid ps' (register_toxic_asset now bid ps b) =
     register_toxic_asset now bid ps b"
  by (auto simp: register_toxic_asset_def Let_def)

theorem register_toxic_asset_idempotent_witness:
  "''XAUUSD_7'' \<in> fst ` set (toxic_assets (example_bank 3)) \<and>
   register_toxic_asset 300 ''XAUUSD_7'' [] (example_bank 3) = example_bank 3 \<and>
   length (toxic_assets (register_toxic_asset 300 ''XAUUSD_7'' [] (example_bank 3))) = 2"
  using register_toxic_asset_idempotent [of "''XAUUSD_7''" "example_bank 3" 300 "[]"]
  by (simp add: example_bank_def register_toxic_asset_def deposit_tithe_def bad_bank_init_def)

text \<open>
  Claim C2. From the empty ledger, after any sequence of registrations, deposits and
  debt-reduction passes against any broker, the pool balance is at least 0. A deposit
  accepts and adds max 0 amount: nothing for a non-positive amount, the whole amount
  otherwise. A pass leaves the balance as it was or lowers it to a value that is
  still at least 0.
\<close>

theorem tithe_balance_never_negative:
  "0 \<le> tithe_balance (run_ledger ops) \<and>
   fst (deposit_tithe amount source_symbol b) = max 0 amount \<and>
   tithe_balance (snd (deposit_tithe amount source_symbol b)) = tithe_balance b + max 0 amount \<and>
   (let b' = fst (fst (attempt_debt_reduction br (b, s)))
    in tithe_balance b' = tithe_balance b \<or>
       (0 \<le> tithe_balance b' \<and> tithe_balance b' < tithe_balance b))"
proof -
  have "0 \<le> tithe_balance (run_ledger ops)"
    unfolding run_ledger_def by (rule foldl_ledger_nonneg) (simp add: bad_bank_init_def)
  moreover have "fst (deposit_tithe amount source_symbol b) = max 0 amount"
    "tithe_balance (snd (deposit_tithe amount source_symbol b)) = tithe_balance b + max 0 amount"
    by (simp_all add: deposit_tithe_def)
  moreover have "let b' = fst (fst (attempt_debt_reduction br (b, s)))
    in tithe_balance b' = tithe_balance b \<or>
       (0 \<le> tithe_balance b' \<and> tithe_balance b' < tithe_balance b)"
  proof -
    obtain b' s' calls r where run: "attempt_debt_reduction br (b, s) = ((b', s', calls), r)"
      by (metis surj_pair)
    from attempt_debt_reduction_shape [OF run]
    have "tithe_balance b' = tithe_balance b \<or>
       (0 \<le> tithe_balance b' \<and> tithe_balance b' < tithe_balance b)"
      by (auto simp: pass_ok_def settle_balance split: if_splits)
    with run show ?thesis by simp
  qed
  ultimately show ?thesis by blast
qed

theorem tithe_balance_never_negative_witness:
  "0 \<le> tithe_balance (run_ledger
      [Register 100 ''XAUUSD_7'' [example_position], Deposit (- 1) ''EURUSD'',
       Deposit 8 ''EURUSD'', Reduce (example_broker True) ()]) \<and>
   tithe_balance (snd (deposit_tithe (- 1) ''EURUSD'' (example_bank 8))) = 8 \<and>
   tithe_balance (fst (fst (attempt_debt_reduction (example_broker True) (example_bank 8, ())))) = 3"
  using tithe_balance_never_negative [of
      "[Register 100 ''XAUUSD_7'' [example_position], Deposit (- 1) ''EURUSD'',
        Deposit 8 ''EURUSD'', Reduce (example_broker True) ()]"
      "- 1" "''EURUSD''" "example_bank 8" "example_broker True" "()"]
  by (simp add: example_pass_8 settle_balance)
    (simp add: example_bank_def deposit_tithe_def register_toxic_asset_def bad_bank_init_def)

text \<open>
  Claim C9. In one pass at most one close is confirmed by the broker, of 0.01 lots; the
  pass returns True exactly when one was, that close is then the last call made to
  the broker, and the ledger is one settled nibble away from the ledger before;
  otherwise the ledger is unchanged.
\<close>

theorem debt_reduction_single_nibble:
  assumes "attempt_debt_reduction br (b, s) = ((b', s', calls), r)"
  shows "length (filter is_success calls) \<le> 1 \<and>
         sum_list (map closed_volume calls) \<le> 1 / 100 \<and>
         (r = Returned True \<longleftrightarrow> filter is_success calls \<noteq> []) \<and>
         (r = Returned True \<longrightarrow> is_success (last calls) \<and>
            filter is_success (butlast calls) = [] \<and>
            (\<exists>bucket ps i p req. b' = settle_nibble bucket ps i p req b)) \<and>
         (r \<noteq> Returned True \<longrightarrow> b' = b)"
proof -
  have quiet: "sum_list (map closed_volume cs) = 0" if "filter is_success cs = []" for cs
    using that
  proof (induction cs)
    case Nil
    then show ?case by simp
  next
    case (Cons c cs)
    then show ?case by (cases c rule: is_success.cases) (auto split: if_splits)
  qed
  from attempt_debt_reduction_shape [OF assms] have ok: "pass_ok b b' calls r" .
  show ?thesis
  proof (cases "r = Returned True")
    case True
    with ok obtain pre t req bucket ps i p where
      c: "calls = pre @ [Close_Position t NIBBLE_SIZE (Returned True)]"
      and q: "filter is_success pre = []"
      and b': "b' = settle_nibble bucket ps i p req b"
      unfolding pass_ok_def by auto
    from b' have ex: "\<exists>bucket ps i p req. b' = settle_nibble bucket ps i p req b"
      by blast
    from c q quiet [OF q] True have
      "length (filter is_success calls) \<le> 1 \<and>
       sum_list (map closed_volume calls) \<le> 1 / 100 \<and>
       (r = Returned True \<longleftrightarrow> filter is_success calls \<noteq> []) \<and>
       is_success (last calls) \<and> filter is_success (butlast calls) = []"
      by (simp add: NIBBLE_SIZE_def)
    with ex True show ?thesis by blast
  next
    case False
    with ok have "b' = b" "filter is_success calls = []"
      unfolding pass_ok_def by auto
    with False quiet show ?thesis by simp
  qed
qed

theorem debt_reduction_single_nibble_witness:
  "attempt_debt_reduction (example_broker True) (example_bank 8, ()) =
     ((settle_nibble ''XAUUSD_7'' [example_position] 0 example_position 5 (example_bank 8), (),
       [Last_Tick ''XAUUSD'' (Returned (Some example_tick)),
        Close_Position 7 NIBBLE_SIZE (Returned True)]), Returned True) \<and>
   sum_list (map closed_volume
       [Last_Tick ''XAUUSD'' (Returned (Some example_tick)),
        Close_Position 7 NIBBLE_SIZE (Returned True)]) \<le> 1 / 100"
  using debt_reduction_single_nibble [OF example_pass_8] example_pass_8
  by simp

subsection \<open>The tick pressure analyzer\<close>

lemma deque_append_set: "set (deque_append n q x) \<subseteq> insert x (set q)"
  unfolding deque_append_def using set_drop_subset [of _ "q @ [x]"] by fastforce

lemma deque_append_all: "list_all P q \<Longrightarrow> P x \<Longrightarrow> list_all P (deque_append n q x)"
  using deque_append_set [of n q x] by (auto simp: list_all_iff)

lemma add_nonneg:
  "nonneg_buffers a \<Longrightarrow> 0 \<le> v \<Longrightarrow> nonneg_buffers (add_buy v a)"
  "nonneg_buffers a \<Longrightarrow> 0 \<le> v \<Longrightarrow> nonneg_buffers (add_sell v a)"
  "nonneg_buffers a \<Longrightarrow> 0 \<le> v \<Longrightarrow> nonneg_buffers (add_split v a)"
  by (simp_all add: nonneg_buffers_def add_buy_def add_sell_def add_split_def deque_append_all)

lemma classify_tick_nonneg:
  assumes "nonneg_buffers a" and "0 \<le> dict_get t ''volume'' 1"
  shows "nonneg_buffers (classify_tick t a)"
proof -
  have "nonneg_buffers (a'\<lparr>prev_mid := m\<rparr>)" if "nonneg_buffers a'" for a' m
    using that by (simp add: nonneg_buffers_def)
  then show ?thesis
    unfolding classify_tick_def Let_def using assms by (simp add: add_nonneg)
qed

lemma sum_list_nonneg_real: "list_all (\<lambda>v. (0::real) \<le> v) xs \<Longrightarrow> 0 \<le> sum_list xs"
  by (induction xs) auto

text \<open>
  Claim C7. calculate_vpin is 0 when the two buffers hold fewer than 15 samples
  together, whatever the volumes in them, and when the total volume is zero; with
  at least 15 samples and a positive total it is the absolute difference of the buy
  and sell volumes over their total.
\<close>

theorem calculate_vpin_floor:
  "(length (buy_volume_buffer a) + length (sell_volume_buffer a) < 15 \<longrightarrow> calculate_vpin a = 0) \<and>
   (sum_list (buy_volume_buffer a) + sum_list (sell_volume_buffer a) = 0 \<longrightarrow> calculate_vpin a = 0) \<and>
   (15 \<le> length (buy_volume_buffer a) + length (sell_volume_buffer a) \<and>
    0 < sum_list (buy_volume_buffer a) + sum_list (sell_volume_buffer a) \<longrightarrow>
      calculate_vpin a =
        \<bar>sum_list (buy_volume_buffer a) - sum_list (sell_volume_buffer a)\<bar> /
        (sum_list (buy_volume_buffer a) + sum_list (sell_volume_buffer a)))"
  by (simp add: calculate_vpin_def Let_def)

lemma after_buys_buffers:
  "n \<le> 100 \<Longrightarrow> after_buys n =
     \<lparr>buy_volume_buffer = replicate n 3, sell_volume_buffer = [], prev_mid = (if n = 0 then None else Some (3/2)),
      rust_engine = False\<rparr>"
proof (induction n)
  case 0
  then show ?case by (simp add: after_buys_def analyzer_init_def)
next
  case (Suc n)
  then show ?case
    by (simp add: after_buys_def analyze_order_flow_def classify_tick_def quiet_market_def
        dict_get_def add_buy_def deque_append_def Let_def replicate_append_same)
qed

theorem calculate_vpin_floor_witness:
  "length (buy_volume_buffer (after_buys 14)) + length (sell_volume_buffer (after_buys 14)) = 14 \<and>
   calculate_vpin (after_buys 14) = 0 \<and>
   calculate_vpin (analyzer_init False) = 0 \<and>
   calculate_vpin (after_buys 15) = 1"
  using calculate_vpin_floor [of "after_buys 14"] calculate_vpin_floor [of "after_buys 15"]
    calculate_vpin_floor [of "analyzer_init False"]
  by (simp add: after_buys_buffers sum_list_replicate) (simp add: analyzer_init_def)

lemma classify_tick_rust: "rust_engine (classify_tick t a) = rust_engine a"
  by (simp add: classify_tick_def add_buy_def add_sell_def add_split_def Let_def)

text \<open>
  Claim C10, amended. The analyzer after the call is the analyzer before it for a
  missing or empty tick, and the analyzer with the tick classified otherwise. The
  answer is the neutral 0.0, 0.5, 0.5 on every fallback (missing or empty tick,
  exception caught by the handler) and when the total volume in the buffers is not
  positive; otherwise its three numbers are the quotients (buy - sell) / total,
  buy / total and sell / total of the buffered volumes, each computed on its own.
  Over the reals of this development the answer therefore has
  buy_pressure + sell_pressure = 1 and order_flow_imbalance = buy_pressure -
  sell_pressure; the floats of the program, three separately rounded quotients, have
  them up to rounding only. The imbalance lies in [-1, 1], and both pressures are
  not negative, when the tick's volume is not negative and the buffers hold no
  negative volume, which then also holds after the call.
\<close>

theorem order_flow_bounds:
  "let (f, a') = analyze_order_flow rust_raises tick a;
       buy_vol = sum_list (buy_volume_buffer a');
       sell_vol = sum_list (sell_volume_buffer a');
       total_vol = buy_vol + sell_vol
   in a' = (case tick of None \<Rightarrow> a | Some t \<Rightarrow> if t = [] then a else classify_tick t a) \<and>
      (falls_back rust_raises tick a \<or> total_vol \<le> 0 \<longrightarrow>
         order_flow_imbalance f = 0 \<and> buy_pressure f = 1 / 2 \<and> sell_pressure f = 1 / 2) \<and>
      (\<not> falls_back rust_raises tick a \<and> 0 < total_vol \<longrightarrow>
         order_flow_imbalance f = (buy_vol - sell_vol) / total_vol \<and>
         buy_pressure f = buy_vol / total_vol \<and>
         sell_pressure f = sell_vol / total_vol) \<and>
      volumes f = (if falls_back rust_raises tick a then None else Some (buy_vol, sell_vol)) \<and>
      buy_pressure f + sell_pressure f = 1 \<and>
      order_flow_imbalance f = buy_pressure f - sell_pressure f \<and>
      (nonneg_buffers a \<and>
       (case tick of None \<Rightarrow> True | Some t \<Rightarrow> 0 \<le> dict_get t ''volume'' 1) \<longrightarrow>
         - 1 \<le> order_flow_imbalance f \<and> order_flow_imbalance f \<le> 1 \<and>
         0 \<le> buy_pressure f \<and> 0 \<le> sell_pressure f \<and> nonneg_buffers a')"
proof (cases "tick = None \<or> tick = Some []")
  case True
  then show ?thesis
    by (auto simp: analyze_order_flow_def neutral_flow_def falls_back_def)
next
  case False
  then obtain tk where tk: "tick = Some tk" "tk \<noteq> []" by (cases tick) auto
  let ?a = "classify_tick tk a"
  let ?B = "sum_list (buy_volume_buffer ?a)"
  let ?S = "sum_list (sell_volume_buffer ?a)"
  have nn: "nonneg_buffers ?a \<and> 0 \<le> ?B \<and> 0 \<le> ?S"
    if "nonneg_buffers a" "0 \<le> dict_get tk ''volume'' 1"
    using classify_tick_nonneg [OF that]
    by (simp add: sum_list_nonneg_real nonneg_buffers_def)
  have frac: "- 1 \<le> (x - y) / (x + y) \<and> (x - y) / (x + y) \<le> 1 \<and>
      0 \<le> x / (x + y) \<and> 0 \<le> y / (x + y)"
    if "0 \<le> x" "0 \<le> y" "0 < x + y" for x y :: real
    using that by (simp add: field_simps)
  have sum1: "x / (x + y) + y / (x + y) = 1" "(x - y) / (x + y) = x / (x + y) - y / (x + y)"
    if "0 < x + y" for x y :: real
    using that by (simp_all add: diff_divide_distrib add_divide_distrib [symmetric])
  show ?thesis
  proof (cases "rust_engine a \<and> rust_raises")
    case True
    with tk show ?thesis
      by (simp add: analyze_order_flow_def neutral_flow_def falls_back_def classify_tick_rust nn)
  next
    case R: False
    show ?thesis
    proof (cases "0 < ?B + ?S")
      case True
      with tk R show ?thesis
        using frac [of ?B ?S] sum1 [of ?B ?S] nn
        by (auto simp: analyze_order_flow_def falls_back_def classify_tick_rust Let_def)
    next
      case False
      with tk R show ?thesis
        using nn
        by (auto simp: analyze_order_flow_def falls_back_def classify_tick_rust Let_def)
    qed
  qed
qed

lemma after_one_buy:
  "snd (analyze_order_flow False (Some quiet_market) (analyzer_init False)) =
     \<lparr>buy_volume_buffer = [3], sell_volume_buffer = [], prev_mid = Some (3/2), rust_engine = False\<rparr>"
  by (simp add: analyze_order_flow_def classify_tick_def quiet_market_def analyzer_init_def
        dict_get_def add_buy_def deque_append_def Let_def)

text \<open>
  Claim C10 as stated fails for a tick with a negative volume: after a trade of 3 on
  the buy side, a print of volume -1 at the bid gives an imbalance of (3 + 1) / (3 - 1) = 2.
\<close>

theorem order_flow_bounds_counterexample:
  "order_flow_imbalance (fst (analyze_order_flow False (Some negative_print)
      (snd (analyze_order_flow False (Some quiet_market) (analyzer_init False))))) = 2"
  unfolding after_one_buy
  by (simp add: analyze_order_flow_def classify_tick_def negative_print_def
        dict_get_def add_buy_def add_sell_def deque_append_def Let_def)

lemma example_flow_sell:
  "analyze_order_flow False (Some sell_print)
      \<lparr>buy_volume_buffer = [3], sell_volume_buffer = [], prev_mid = Some (3/2), rust_engine = False\<rparr> =
     (\<lparr>order_flow_imbalance = 1 / 2, buy_pressure = 3 / 4, sell_pressure = 1 / 4,
       volumes = Some (3, 1)\<rparr>,
      \<lparr>buy_volume_buffer = [3], sell_volume_buffer = [1], prev_mid = Some (3/2), rust_engine = False\<rparr>)"
  by (simp add: analyze_order_flow_def classify_tick_def sell_print_def
        dict_get_def add_buy_def add_sell_def deque_append_def Let_def)

lemma example_flow_empty:
  "analyze_order_flow False (Some empty_print) (analyzer_init False) =
     (\<lparr>order_flow_imbalance = 0, buy_pressure = 1 / 2, sell_pressure = 1 / 2,
       volumes = Some (0, 0)\<rparr>,
      \<lparr>buy_volume_buffer = [0], sell_volume_buffer = [], prev_mid = Some (3/2), rust_engine = False\<rparr>)"
  by (simp add: analyze_order_flow_def classify_tick_def empty_print_def analyzer_init_def
        dict_get_def add_buy_def add_sell_def deque_append_def Let_def)

lemma example_flow_raise:
  "analyze_order_flow True (Some quiet_market) (analyzer_init True) =
     (neutral_flow,
      \<lparr>buy_volume_buffer = [3], sell_volume_buffer = [], prev_mid = Some (3/2), rust_engine = True\<rparr>)"
  by (simp add: analyze_order_flow_def classify_tick_def quiet_market_def analyzer_init_def
        dict_get_def add_buy_def add_sell_def deque_append_def Let_def)

lemma example_flow_buy:
  "analyze_order_flow False (Some quiet_market) (analyzer_init False) =
     (\<lparr>order_flow_imbalance = 1, buy_pressure = 1, sell_pressure = 0, volumes = Some (3, 0)\<rparr>,
      \<lparr>buy_volume_buffer = [3], sell_volume_buffer = [], prev_mid = Some (3/2), rust_engine = False\<rparr>)"
  by (simp add: analyze_order_flow_def classify_tick_def quiet_market_def analyzer_init_def
        dict_get_def add_buy_def deque_append_def Let_def)

lemma example_flow_none: "analyze_order_flow False None a = (neutral_flow, a)"
  by (simp add: analyze_order_flow_def)

theorem order_flow_bounds_witness:
  "fst (analyze_order_flow False (Some quiet_market) (analyzer_init False)) =
     \<lparr>order_flow_imbalance = 1, buy_pressure = 1, sell_pressure = 0, volumes = Some (3, 0)\<rparr> \<and>
   (order_flow_imbalance (fst (analyze_order_flow False (Some sell_print)
      (snd (analyze_order_flow False (Some quiet_market) (analyzer_init False))))) = 1 / 2 \<and>
    buy_pressure (fst (analyze_order_flow False (Some sell_print)
      (snd (analyze_order_flow False (Some quiet_market) (analyzer_init False))))) = 3 / 4 \<and>
    sell_pressure (fst (analyze_order_flow False (Some sell_print)
      (snd (analyze_order_flow False (Some quiet_market) (analyzer_init False))))) = 1 / 4) \<and>
   (order_flow_imbalance (fst (analyze_order_flow False (Some empty_print) (analyzer_init False))) = 0 \<and>
    buy_pressure (fst (analyze_order_flow False (Some empty_print) (analyzer_init False))) = 1 / 2 \<and>
    sell_pressure (fst (analyze_order_flow False (Some empty_print) (analyzer_init False))) = 1 / 2) \<and>
   fst (analyze_order_flow False None (analyzer_init False)) = neutral_flow \<and>
   fst (analyze_order_flow True (Some quiet_market) (analyzer_init True)) = neutral_flow \<and>
   nonneg_buffers (analyzer_init False) \<and>
   nonneg_buffers (snd (analyze_order_flow False (Some quiet_market) (analyzer_init False))) \<and>
   0 \<le> dict_get quiet_market ''volume'' 1 \<and> 0 \<le> dict_get sell_print ''volume'' 1"
proof -
  have n0: "nonneg_buffers (analyzer_init False)"
    by (simp add: nonneg_buffers_def analyzer_init_def)
  have v: "0 \<le> dict_get quiet_market ''volume'' 1" "0 \<le> dict_get sell_print ''volume'' 1"
    by (simp_all add: dict_get_def quiet_market_def sell_print_def)
  have "nonneg_buffers (analyzer_init False) \<and>
      (case Some quiet_market of None \<Rightarrow> True | Some t \<Rightarrow> 0 \<le> dict_get t ''volume'' 1) \<longrightarrow>
      nonneg_buffers (snd (analyze_order_flow False (Some quiet_market) (analyzer_init False)))"
    using order_flow_bounds [of False "Some quiet_market" "analyzer_init False"]
    unfolding Let_def split_beta by blast
  with n0 v(1)
  have n1: "nonneg_buffers (snd (analyze_order_flow False (Some quiet_market) (analyzer_init False)))"
    by simp
  let ?X = "analyze_order_flow False (Some sell_print)
      (snd (analyze_order_flow False (Some quiet_market) (analyzer_init False)))"
  have sx: "buy_volume_buffer (snd ?X) = [3]" "sell_volume_buffer (snd ?X) = [1]"
    by (simp_all only: example_flow_buy snd_conv example_flow_sell analyzer.simps)
  have "\<not> falls_back False (Some sell_print)
      (snd (analyze_order_flow False (Some quiet_market) (analyzer_init False)))"
    by (simp add: falls_back_def sell_print_def)
  moreover have "0 < sum_list (buy_volume_buffer (snd ?X)) + sum_list (sell_volume_buffer (snd ?X))"
    by (simp add: sx)
  ultimately have s: "order_flow_imbalance (fst ?X) = 1 / 2 \<and> buy_pressure (fst ?X) = 3 / 4 \<and>
      sell_pressure (fst ?X) = 1 / 4"
    using order_flow_bounds [of False "Some sell_print"
      "snd (analyze_order_flow False (Some quiet_market) (analyzer_init False))"]
    unfolding Let_def split_beta sx by simp
  let ?E = "analyze_order_flow False (Some empty_print) (analyzer_init False)"
  have ex: "buy_volume_buffer (snd ?E) = [0]" "sell_volume_buffer (snd ?E) = []"
    by (simp_all only: example_flow_empty snd_conv analyzer.simps)
  have e: "order_flow_imbalance (fst ?E) = 0 \<and> buy_pressure (fst ?E) = 1 / 2 \<and>
      sell_pressure (fst ?E) = 1 / 2"
    using order_flow_bounds [of False "Some empty_print" "analyzer_init False"]
    unfolding Let_def split_beta ex by simp
  have r: "fst (analyze_order_flow True (Some quiet_market) (analyzer_init True)) = neutral_flow"
    using order_flow_bounds [of True "Some quiet_market" "analyzer_init True"]
    by (simp only: example_flow_raise fst_conv)
  have b: "fst (analyze_order_flow False (Some quiet_market) (analyzer_init False)) =
     \<lparr>order_flow_imbalance = 1, buy_pressure = 1, sell_pressure = 0, volumes = Some (3, 0)\<rparr>"
    by (simp only: example_flow_buy fst_conv)
  have n: "fst (analyze_order_flow False None (analyzer_init False)) = neutral_flow"
    using order_flow_bounds [of False None "analyzer_init False"]
    by (simp only: example_flow_none fst_conv)
  from b s e n r n0 n1 v show ?thesis by blast
qed

subsection \<open>The liquidity mapper\<close>

lemma cluster_groups_acc:
  "cluster_groups thr prev xs cur gs = gs @ cluster_groups thr prev xs cur []"
proof (induction xs arbitrary: prev cur gs)
  case Nil
  then show ?case by simp
next
  case (Cons x xs)
  show ?case
  proof (cases "x - prev \<le> thr")
    case True
    then show ?thesis using Cons.IH [of x "cur @ [x]" gs] by simp
  next
    case False
    then show ?thesis
      using Cons.IH [of x "[x]" "gs @ [cur]"] Cons.IH [of x "[x]" "[cur]"] by simp
  qed
qed

lemma cluster_loop_walls:
  "cur \<noteq> [] \<Longrightarrow>
   cluster_loop thr r prev xs cur cl =
     Returned (cl @ map (wall_of r) (cluster_groups thr prev xs cur []))"
proof (induction xs arbitrary: prev cur cl)
  case Nil
  then show ?case by (simp add: process_cluster_def wall_of_def)
next
  case (Cons x xs)
  show ?case
  proof (cases "x - prev \<le> thr")
    case True
    then show ?thesis using Cons.IH [of "cur @ [x]" x cl] by simp
  next
    case False
    have "cluster_groups thr x xs [x] [cur] = [cur] @ cluster_groups thr x xs [x] []"
      by (rule cluster_groups_acc)
    with False Cons.prems show ?thesis
      using Cons.IH [of "[x]" x "cl @ [wall_of r cur]"]
      by (simp add: process_cluster_def wall_of_def)
  qed
qed

lemma cluster_groups_clustered:
  assumes "cur \<noteq> []" "last cur = prev" "successively (\<lambda>a b. b - a \<le> thr) cur"
  shows "clustered thr (cur @ xs) (cluster_groups thr prev xs cur [])"
  using assms
proof (induction xs arbitrary: prev cur)
  case Nil
  then show ?case by (simp add: clustered_def)
next
  case (Cons x xs)
  show ?case
  proof (cases "x - prev \<le> thr")
    case True
    have "successively (\<lambda>a b. b - a \<le> thr) (cur @ [x])"
      using Cons.prems True by (simp add: successively_append_iff)
    from Cons.IH [of "cur @ [x]" x, OF _ _ this] True show ?thesis by simp
  next
    case False
    have rest: "clustered thr ([x] @ xs) (cluster_groups thr x xs [x] [])"
      by (rule Cons.IH) simp_all
    have split: "cluster_groups thr x xs [x] [cur] = cur # cluster_groups thr x xs [x] []"
      using cluster_groups_acc [of thr x xs "[x]" "[cur]"] by simp
    have "\<exists>g gs. cluster_groups thr x xs [x] [] = g # gs \<and> hd g = x"
    proof (cases "cluster_groups thr x xs [x] []")
      case Nil
      with rest show ?thesis by (simp add: clustered_def)
    next
      case (Cons g gs)
      with rest have "g @ concat gs = x # xs" "g \<noteq> []" by (simp_all add: clustered_def)
      then have "hd g = x" by (cases g) simp_all
      with Cons show ?thesis by simp
    qed
    then obtain g gs where gs: "cluster_groups thr x xs [x] [] = g # gs" and g: "hd g = x"
      by blast
    show ?thesis
      using False rest Cons.prems unfolding clustered_def
      by (simp add: split gs g)
  qed
qed

text \<open>
  Claim C5, amended. _cluster_levels returns one wall per group, with the mean of the
  group as price and its size as strength, where the groups cluster the sorted levels
  at the single threshold 0.0005 times the smallest level: a level joins the current
  cluster exactly when it is within that threshold of the previous level. The threshold
  is computed once, before the loop, and is the same for every cluster.
\<close>

theorem cluster_levels_fixed_threshold:
  "cluster_levels levels is_resistance = Returned (map (wall_of is_resistance) (level_groups levels)) \<and>
   (levels \<noteq> [] \<longrightarrow>
      clustered (hd (sort levels) * (5 / 10000)) (sort levels) (level_groups levels))"
proof (cases "sort levels")
  case Nil
  then have "levels = []" by (metis length_sort length_0_conv)
  with Nil show ?thesis by (simp add: cluster_levels_def level_groups_def)
next
  case (Cons l0 rest)
  have "clustered (l0 * (5 / 10000)) ([l0] @ rest) (cluster_groups (l0 * (5 / 10000)) l0 rest [l0] [])"
    by (rule cluster_groups_clustered) simp_all
  with Cons show ?thesis
    by (simp add: cluster_levels_def level_groups_def cluster_loop_walls Let_def)
qed

lemma sort_three: "sort [1000, 2000, 20008 / 10 :: real] = [1000, 2000, 20008 / 10]"
  by simp

text \<open>
  Claim C5 as stated fails: with the levels 1000, 2000 and 2000.8 the last level is
  within 0.05% of 2000, the anchor of the cluster it would join, yet the code keeps it
  apart (its threshold is 0.5, from the level 1000), where the clustering with a
  threshold per cluster merges the two.
\<close>

theorem cluster_levels_counterexample:
  "cluster_levels [1000, 2000, 20008 / 10] True =
     Returned [\<lparr>price = 1000, strength = 1, wall_type = ''RESISTANCE''\<rparr>,
               \<lparr>price = 2000, strength = 1, wall_type = ''RESISTANCE''\<rparr>,
               \<lparr>price = 20008 / 10, strength = 1, wall_type = ''RESISTANCE''\<rparr>] \<and>
   spec_cluster_levels [1000, 2000, 20008 / 10] True =
     Returned [\<lparr>price = 1000, strength = 1, wall_type = ''RESISTANCE''\<rparr>,
               \<lparr>price = 20004 / 10, strength = 2, wall_type = ''RESISTANCE''\<rparr>] \<and>
   20008 / 10 - 2000 \<le> (2000 :: real) * (5 / 10000)"
  by (simp add: cluster_levels_def spec_cluster_levels_def sort_three process_cluster_def Let_def)

theorem cluster_levels_fixed_threshold_witness:
  "cluster_levels [2000, 20008 / 10, 1000, 10003 / 10] False =
     Returned [\<lparr>price = 20003 / 20, strength = 2, wall_type = ''SUPPORT''\<rparr>,
               \<lparr>price = 2000, strength = 1, wall_type = ''SUPPORT''\<rparr>,
               \<lparr>price = 20008 / 10, strength = 1, wall_type = ''SUPPORT''\<rparr>] \<and>
   clustered (1000 * (5 / 10000)) [1000, 10003 / 10, 2000, 20008 / 10]
     [[1000, 10003 / 10], [2000], [20008 / 10]]"
  using cluster_levels_fixed_threshold [of "[2000, 20008 / 10, 1000, 10003 / 10]" False]
  by (simp add: level_groups_def wall_of_def)

subsection \<open>Spread health and symbol states\<close>






subsection \<open>The zone recovery\<close>

lemma is_spread_healthy_keeps:
  "pending_hedges (snd (is_spread_healthy now cs m)) = pending_hedges m"
  "hedge_states (snd (is_spread_healthy now cs m)) = hedge_states m"
  by (simp_all add: is_spread_healthy_def Let_def)

lemma get_hedge_state_keeps:
  "pending_hedges (snd (get_hedge_state symb m)) = pending_hedges m"
  "dom (hedge_states (snd (get_hedge_state symb m))) = insert symb (dom (hedge_states m))"
  by (auto simp: get_hedge_state_def split: option.splits)

lemma freshness_gate_keeps:
  "pending_hedges (snd (freshness_gate env tick m)) = pending_hedges m"
  "hedge_states (snd (freshness_gate env tick m)) = hedge_states m"
  by (simp_all add: freshness_gate_def Let_def split: outcome.splits)

lemma validate_keeps:
  "pending_hedges (snd (validate_hedge_conditions ar env symb ps tick point atr_val mho m)) =
     pending_hedges m"
  "dom (hedge_states m) \<subseteq>
     dom (hedge_states (snd (validate_hedge_conditions ar env symb ps tick point atr_val mho m)))"
  by (auto simp: validate_hedge_conditions_def Let_def split_beta is_spread_healthy_keeps
      get_hedge_state_keeps)

lemma pop_pending_simps:
  "pending_hedges (rm (pop_pending symb w)) = (pending_hedges (rm w))(symb := None)"
  "hedge_states (rm (pop_pending symb w)) = hedge_states (rm w)"
  "orders (pop_pending symb w) = orders w"
  "active_learning_trades (pop_pending symb w) = active_learning_trades w"
  by (simp_all add: pop_pending_def)

lemma put_state_simps:
  "pending_hedges (rm (put_state symb st w)) = pending_hedges (rm w)"
  "hedge_states (rm (put_state symb st w)) = (hedge_states (rm w))(symb \<mapsto> st)"
  "orders (put_state symb st w) = orders w"
  "active_learning_trades (put_state symb st w) = active_learning_trades w"
  by (simp_all add: put_state_def)

lemma confirm_hedge_effect:
  "pending_hedges (rm (fst (confirm_hedge env symb fp md lvl st act lot tp nt w))) =
     pending_hedges (rm w)"
  "orders (fst (confirm_hedge env symb fp md lvl st act lot tp nt w)) = orders w"
  "dom (hedge_states (rm (fst (confirm_hedge env symb fp md lvl st act lot tp nt w)))) =
     (if record_hedge_raises env then dom (hedge_states (rm w))
      else insert symb (dom (hedge_states (rm w))))"
  "active_learning_trades (fst (confirm_hedge env symb fp md lvl st act lot tp nt w)) =
     (if record_hedge_raises env then active_learning_trades w
      else (active_learning_trades w)(ticket fp \<mapsto> md\<lparr>current_hedge_level := Some (lvl + 1)\<rparr>))"
  "snd (confirm_hedge env symb fp md lvl st act lot tp nt w) =
     (if record_hedge_raises env \<or> add_position_to_bucket_raises env then Raised
      else Returned True)"
  by (auto simp: confirm_hedge_def Let_def put_state_simps)

lemma recovery_body_pending:
  "pending_hedges (rm (fst (recovery_body ar env symb ps tick point strict atr vr rsi pm st fp w))) =
     (if snd (recovery_body ar env symb ps tick point strict atr vr rsi pm st fp w) = Raised \<or>
         (snd (recovery_body ar env symb ps tick point strict atr vr rsi pm st fp w) = Returned True \<and>
          orders (fst (recovery_body ar env symb ps tick point strict atr vr rsi pm st fp w)) \<noteq> orders w)
      then pending_hedges (rm w) else (pending_hedges (rm w))(symb := None))"
proof (cases "recovery_decision ar env symb ps tick point strict atr vr rsi pm st fp
    (case active_learning_trades w (ticket fp) of None \<Rightarrow> no_metadata | Some x \<Rightarrow> x)")
  case (Submit ord)
  show ?thesis
  proof (cases "execute_order env ord")
    case Raised
    with Submit show ?thesis
      by (simp add: recovery_body_def Let_def put_state_simps)
  next
    case (Returned res)
    show ?thesis
    proof (cases res)
      case None
      with Submit Returned show ?thesis
        by (simp add: recovery_body_def Let_def put_state_simps pop_pending_simps)
    next
      case (Some t)
      with Submit Returned show ?thesis
        by (simp add: recovery_body_def Let_def put_state_simps pop_pending_simps
            confirm_hedge_effect)
    qed
  qed
qed (simp_all add: recovery_body_def Let_def put_state_simps pop_pending_simps)

lemma recovery_body_trades:
  "active_learning_trades (fst (recovery_body ar env symb ps tick point strict atr vr rsi pm st fp w)) =
     active_learning_trades w \<or>
   (\<exists>oc. orders (fst (recovery_body ar env symb ps tick point strict atr vr rsi pm st fp w)) =
           orders w @ [oc] \<and> is_confirmed oc \<and>
         active_learning_trades (fst (recovery_body ar env symb ps tick point strict atr vr rsi pm st fp w)) =
           advance_hedge_level fp ps (active_learning_trades w))"
proof (cases "recovery_decision ar env symb ps tick point strict atr vr rsi pm st fp
    (case active_learning_trades w (ticket fp) of None \<Rightarrow> no_metadata | Some x \<Rightarrow> x)")
  case (Submit ord)
  show ?thesis
  proof (cases "execute_order env ord")
    case Raised
    with Submit show ?thesis
      by (simp add: recovery_body_def Let_def put_state_simps)
  next
    case (Returned res)
    show ?thesis
    proof (cases res)
      case None
      with Submit Returned show ?thesis
        by (simp add: recovery_body_def Let_def put_state_simps pop_pending_simps)
    next
      case (Some t)
      with Submit Returned show ?thesis
        by (simp add: recovery_body_def Let_def put_state_simps pop_pending_simps
            confirm_hedge_effect advance_hedge_level_def)
    qed
  qed
qed (simp_all add: recovery_body_def Let_def put_state_simps pop_pending_simps)

lemma recovery_body_success:
  "snd (recovery_body ar env symb ps tick point strict atr vr rsi pm st fp w) = Returned True \<Longrightarrow>
   orders (fst (recovery_body ar env symb ps tick point strict atr vr rsi pm st fp w)) \<noteq> orders w \<Longrightarrow>
   \<exists>oc. orders (fst (recovery_body ar env symb ps tick point strict atr vr rsi pm st fp w)) =
           orders w @ [oc] \<and> is_confirmed oc"
proof (cases "recovery_decision ar env symb ps tick point strict atr vr rsi pm st fp
    (case active_learning_trades w (ticket fp) of None \<Rightarrow> no_metadata | Some x \<Rightarrow> x)")
  case (Submit ord)
  assume t: "snd (recovery_body ar env symb ps tick point strict atr vr rsi pm st fp w) = Returned True"
  show ?thesis
  proof (cases "execute_order env ord")
    case Raised
    with Submit t show ?thesis
      by (simp add: recovery_body_def Let_def put_state_simps)
  next
    case (Returned res)
    show ?thesis
    proof (cases res)
      case None
      with Submit Returned t show ?thesis
        by (simp add: recovery_body_def Let_def put_state_simps pop_pending_simps)
    next
      case (Some t')
      with Submit Returned t show ?thesis
        by (simp add: recovery_body_def Let_def put_state_simps pop_pending_simps
            confirm_hedge_effect split: if_splits)
    qed
  qed
qed (simp_all add: recovery_body_def Let_def put_state_simps pop_pending_simps)

lemma recovery_body_dom:
  "dom (hedge_states (rm w)) \<subseteq>
   dom (hedge_states (rm (fst (recovery_body ar env symb ps tick point strict atr vr rsi pm st fp w))))"
proof (cases "recovery_decision ar env symb ps tick point strict atr vr rsi pm st fp
    (case active_learning_trades w (ticket fp) of None \<Rightarrow> no_metadata | Some x \<Rightarrow> x)")
  case (Submit ord)
  then show ?thesis
    by (simp add: recovery_body_def Let_def put_state_simps pop_pending_simps confirm_hedge_effect
        subset_insertI subset_insertI2 split: outcome.splits option.splits)
qed (simp_all add: recovery_body_def Let_def put_state_simps pop_pending_simps subset_insertI)

lemma set_pending_simps:
  "pending_hedges (rm (set_pending symb t w)) = (pending_hedges (rm w))(symb \<mapsto> t)"
  "hedge_states (rm (set_pending symb t w)) = hedge_states (rm w)"
  "orders (set_pending symb t w) = orders w"
  "active_learning_trades (set_pending symb t w) = active_learning_trades w"
  by (simp_all add: set_pending_def)

lemma rm_update_simps:
  "orders (w\<lparr>rm := m\<rparr>) = orders w"
  "active_learning_trades (w\<lparr>rm := m\<rparr>) = active_learning_trades w"
  by simp_all

lemma entry_gates_keeps:
  "pending_hedges (rm (snd (entry_gates ar env symb ps tick point strict atr rsi mho w0))) =
     pending_hedges (rm w0)"
  "orders (snd (entry_gates ar env symb ps tick point strict atr rsi mho w0)) = orders w0"
  "active_learning_trades (snd (entry_gates ar env symb ps tick point strict atr rsi mho w0)) =
     active_learning_trades w0"
  unfolding entry_gates_def Let_def
  by (simp_all add: split_beta freshness_gate_keeps validate_keeps get_hedge_state_keeps
      split: outcome.splits list.splits bool.splits)

lemma entry_gates_first:
  "fst (entry_gates ar env symb ps tick point strict atr rsi mho w0) = Gate_passed st fp \<Longrightarrow>
   fp = hd (sort_key time ps)"
  unfolding entry_gates_def Let_def
  by (simp add: split_beta split: if_splits outcome.splits list.splits bool.splits)

lemma entry_gates_dom:
  "dom (hedge_states (rm w0)) \<subseteq>
   dom (hedge_states (rm (snd (entry_gates ar env symb ps tick point strict atr rsi mho w0))))"
proof -
  have v: "dom (hedge_states (rm w0)) \<subseteq>
      dom (hedge_states (snd (validate_hedge_conditions ar env symb ps tick point atr mho
        (snd (freshness_gate env tick (rm w0))))))"
    using validate_keeps(2) [of "snd (freshness_gate env tick (rm w0))"]
    by (simp add: freshness_gate_keeps)
  then have g: "dom (hedge_states (rm w0)) \<subseteq>
      insert symb (dom (hedge_states (snd (validate_hedge_conditions ar env symb ps tick point atr mho
        (snd (freshness_gate env tick (rm w0)))))))"
    by auto
  show ?thesis
    unfolding entry_gates_def Let_def
    by (simp add: split_beta freshness_gate_keeps get_hedge_state_keeps v g
        split: outcome.splits list.splits bool.splits)
qed

lemma execute_debounced:
  "debounced env symb w \<Longrightarrow>
   execute_zone_recovery ar env symb ps tick point strict atr vr rsi pm mho w = (w, Returned False)"
  by (simp add: execute_zone_recovery_def debounced_def)

lemma execute_pending:
  assumes nd: "\<not> debounced env symb w"
    and ret: "snd (execute_zone_recovery ar env symb ps tick point strict atr vr rsi pm mho w) = Returned b"
  shows "pending_hedges (rm (fst (execute_zone_recovery ar env symb ps tick point strict atr vr rsi pm mho w))) =
     (if b \<and> orders (fst (execute_zone_recovery ar env symb ps tick point strict atr vr rsi pm mho w)) \<noteq> orders w
      then (pending_hedges (rm w))(symb \<mapsto> t_mark env)
      else (pending_hedges (rm w))(symb := None))"
proof -
  obtain g w1 where G: "entry_gates ar env symb ps tick point strict atr rsi mho
      (set_pending symb (t_mark env) w) = (g, w1)"
    by (cases "entry_gates ar env symb ps tick point strict atr rsi mho
      (set_pending symb (t_mark env) w)")
  have w1: "pending_hedges (rm w1) = (pending_hedges (rm w))(symb \<mapsto> t_mark env)"
    "orders w1 = orders w"
    using entry_gates_keeps [of ar env symb ps tick point strict atr rsi mho
        "set_pending symb (t_mark env) w"]
    by (simp_all add: G set_pending_simps)
  show ?thesis
  proof (cases g)
    case Gate_rejected
    with nd ret G w1 show ?thesis
      by (auto simp: execute_zone_recovery_def debounced_def pop_pending_simps)
  next
    case Gate_raised
    with nd ret G show ?thesis
      by (simp add: execute_zone_recovery_def debounced_def)
  next
    case (Gate_passed st fp)
    let ?B = "recovery_body ar env symb ps tick point strict atr vr rsi pm st fp w1"
    have E: "execute_zone_recovery ar env symb ps tick point strict atr vr rsi pm mho w =
        (case snd ?B of Raised \<Rightarrow> (pop_pending symb (fst ?B), Returned False)
         | Returned b \<Rightarrow> (fst ?B, Returned b))"
      using nd G Gate_passed
      by (simp add: execute_zone_recovery_def debounced_def split_beta split: outcome.splits)
    show ?thesis
    proof (cases "snd ?B")
      case Raised
      with ret E recovery_body_pending [of ar env symb ps tick point strict atr vr rsi pm st fp w1]
      show ?thesis by (auto simp: pop_pending_simps w1)
    next
      case (Returned b')
      with ret E recovery_body_pending [of ar env symb ps tick point strict atr vr rsi pm st fp w1]
      show ?thesis by (auto simp: pop_pending_simps w1)
    qed
  qed
qed

lemma execute_shape:
  assumes nd: "\<not> debounced env symb w"
  shows "\<exists>g w1. pending_hedges (rm w1) = (pending_hedges (rm w))(symb \<mapsto> t_mark env) \<and>
      orders w1 = orders w \<and> active_learning_trades w1 = active_learning_trades w \<and>
      dom (hedge_states (rm w)) \<subseteq> dom (hedge_states (rm w1)) \<and>
      (\<forall>st fp. g = Gate_passed st fp \<longrightarrow> fp = hd (sort_key time ps)) \<and>
      execute_zone_recovery ar env symb ps tick point strict atr vr rsi pm mho w =
        (case g of
           Gate_rejected \<Rightarrow> (pop_pending symb w1, Returned False)
         | Gate_raised \<Rightarrow> (w1, Raised)
         | Gate_passed st fp \<Rightarrow>
             (case snd (recovery_body ar env symb ps tick point strict atr vr rsi pm st fp w1) of
                Raised \<Rightarrow> (pop_pending symb
                    (fst (recovery_body ar env symb ps tick point strict atr vr rsi pm st fp w1)),
                    Returned False)
              | Returned b \<Rightarrow>
                  (fst (recovery_body ar env symb ps tick point strict atr vr rsi pm st fp w1),
                   Returned b)))"
proof -
  obtain g w1 where G: "entry_gates ar env symb ps tick point strict atr rsi mho
      (set_pending symb (t_mark env) w) = (g, w1)"
    by (cases "entry_gates ar env symb ps tick point strict atr rsi mho
      (set_pending symb (t_mark env) w)")
  have w1: "pending_hedges (rm w1) = (pending_hedges (rm w))(symb \<mapsto> t_mark env)"
    "orders w1 = orders w" "active_learning_trades w1 = active_learning_trades w"
    using entry_gates_keeps [of ar env symb ps tick point strict atr rsi mho
        "set_pending symb (t_mark env) w"]
    by (simp_all add: G set_pending_simps)
  have d: "dom (hedge_states (rm w)) \<subseteq> dom (hedge_states (rm w1))"
    using entry_gates_dom [of "set_pending symb (t_mark env) w" ar env symb ps tick point strict
        atr rsi mho]
    by (simp add: G set_pending_simps)
  have f: "\<forall>st fp. g = Gate_passed st fp \<longrightarrow> fp = hd (sort_key time ps)"
    using entry_gates_first [of ar env symb ps tick point strict atr rsi mho
        "set_pending symb (t_mark env) w"]
    by (simp add: G)
  have "execute_zone_recovery ar env symb ps tick point strict atr vr rsi pm mho w =
        (case g of
           Gate_rejected \<Rightarrow> (pop_pending symb w1, Returned False)
         | Gate_raised \<Rightarrow> (w1, Raised)
         | Gate_passed st fp \<Rightarrow>
             (case snd (recovery_body ar env symb ps tick point strict atr vr rsi pm st fp w1) of
                Raised \<Rightarrow> (pop_pending symb
                    (fst (recovery_body ar env symb ps tick point strict atr vr rsi pm st fp w1)),
                    Returned False)
              | Returned b \<Rightarrow>
                  (fst (recovery_body ar env symb ps tick point strict atr vr rsi pm st fp w1),
                   Returned b)))"
    using nd G
    by (simp add: execute_zone_recovery_def debounced_def split_beta
        split: gate.splits outcome.splits)
  with w1 d f show ?thesis by blast
qed

lemma execute_trades:
  "active_learning_trades (fst (execute_zone_recovery ar env symb ps tick point strict atr vr rsi pm mho w)) =
     active_learning_trades w \<or>
   (\<exists>oc. orders (fst (execute_zone_recovery ar env symb ps tick point strict atr vr rsi pm mho w)) =
           orders w @ [oc] \<and> is_confirmed oc \<and>
         active_learning_trades (fst (execute_zone_recovery ar env symb ps tick point strict atr vr rsi pm mho w)) =
           advance_hedge_level (hd (sort_key time ps)) ps (active_learning_trades w))"
proof (cases "debounced env symb w")
  case True
  then show ?thesis by (simp add: execute_debounced)
next
  case False
  from execute_shape [OF False, where ar = ar and ps = ps and tick = tick and point = point and
      strict = strict and atr = atr and vr = vr and rsi = rsi and pm = pm and mho = mho]
  obtain g w1 where w1: "orders w1 = orders w" "active_learning_trades w1 = active_learning_trades w"
    and f: "\<forall>st fp. g = Gate_passed st fp \<longrightarrow> fp = hd (sort_key time ps)"
    and E: "execute_zone_recovery ar env symb ps tick point strict atr vr rsi pm mho w =
        (case g of
           Gate_rejected \<Rightarrow> (pop_pending symb w1, Returned False)
         | Gate_raised \<Rightarrow> (w1, Raised)
         | Gate_passed st fp \<Rightarrow>
             (case snd (recovery_body ar env symb ps tick point strict atr vr rsi pm st fp w1) of
                Raised \<Rightarrow> (pop_pending symb
                    (fst (recovery_body ar env symb ps tick point strict atr vr rsi pm st fp w1)),
                    Returned False)
              | Returned b \<Rightarrow>
                  (fst (recovery_body ar env symb ps tick point strict atr vr rsi pm st fp w1),
                   Returned b)))"
    by blast
  show ?thesis
  proof (cases g)
    case (Gate_passed st fp)
    let ?B = "recovery_body ar env symb ps tick point strict atr vr rsi pm st fp w1"
    have fstE: "orders (fst (execute_zone_recovery ar env symb ps tick point strict atr vr rsi pm mho w)) =
          orders (fst ?B)"
      "active_learning_trades (fst (execute_zone_recovery ar env symb ps tick point strict atr vr rsi pm mho w)) =
          active_learning_trades (fst ?B)"
      unfolding E Gate_passed
      by (cases "snd ?B"; simp add: pop_pending_simps)+
    from f Gate_passed have fp: "hd (sort_key time ps) = fp" by simp
    from recovery_body_trades [of ar env symb ps tick point strict atr vr rsi pm st fp w1]
    show ?thesis unfolding fstE w1 fp .
  qed (simp_all add: E pop_pending_simps w1)
qed

lemma execute_success:
  assumes "snd (execute_zone_recovery ar env symb ps tick point strict atr vr rsi pm mho w) = Returned True"
    and "orders (fst (execute_zone_recovery ar env symb ps tick point strict atr vr rsi pm mho w)) \<noteq> orders w"
  shows "\<exists>oc. orders (fst (execute_zone_recovery ar env symb ps tick point strict atr vr rsi pm mho w)) =
           orders w @ [oc] \<and> is_confirmed oc"
proof (cases "debounced env symb w")
  case True
  with assms show ?thesis by (simp add: execute_debounced)
next
  case False
  from execute_shape [OF False, where ar = ar and ps = ps and tick = tick and point = point and
      strict = strict and atr = atr and vr = vr and rsi = rsi and pm = pm and mho = mho]
  obtain g w1 where w1: "orders w1 = orders w"
    and E: "execute_zone_recovery ar env symb ps tick point strict atr vr rsi pm mho w =
        (case g of
           Gate_rejected \<Rightarrow> (pop_pending symb w1, Returned False)
         | Gate_raised \<Rightarrow> (w1, Raised)
         | Gate_passed st fp \<Rightarrow>
             (case snd (recovery_body ar env symb ps tick point strict atr vr rsi pm st fp w1) of
                Raised \<Rightarrow> (pop_pending symb
                    (fst (recovery_body ar env symb ps tick point strict atr vr rsi pm st fp w1)),
                    Returned False)
              | Returned b \<Rightarrow>
                  (fst (recovery_body ar env symb ps tick point strict atr vr rsi pm st fp w1),
                   Returned b)))"
    by blast
  show ?thesis
  proof (cases g)
    case (Gate_passed st fp)
    let ?B = "recovery_body ar env symb ps tick point strict atr vr rsi pm st fp w1"
    from assms(1) have t: "snd ?B = Returned True"
      unfolding E Gate_passed by (cases "snd ?B") simp_all
    then have fstE: "fst (execute_zone_recovery ar env symb ps tick point strict atr vr rsi pm mho w) = fst ?B"
      unfolding E Gate_passed by simp
    from assms(2) have "orders (fst ?B) \<noteq> orders w1" unfolding fstE w1 .
    from recovery_body_success [OF t this] show ?thesis unfolding fstE w1 .
  qed (use assms in \<open>simp_all add: E pop_pending_simps w1\<close>)
qed

lemma execute_dom:
  "dom (hedge_states (rm w)) \<subseteq>
   dom (hedge_states (rm (fst (execute_zone_recovery ar env symb ps tick point strict atr vr rsi pm mho w))))"
proof (cases "debounced env symb w")
  case True
  then show ?thesis by (simp add: execute_debounced)
next
  case False
  from execute_shape [OF False, where ar = ar and ps = ps and tick = tick and point = point and
      strict = strict and atr = atr and vr = vr and rsi = rsi and pm = pm and mho = mho]
  obtain g w1 where w1: "dom (hedge_states (rm w)) \<subseteq> dom (hedge_states (rm w1))"
    and E: "execute_zone_recovery ar env symb ps tick point strict atr vr rsi pm mho w =
        (case g of
           Gate_rejected \<Rightarrow> (pop_pending symb w1, Returned False)
         | Gate_raised \<Rightarrow> (w1, Raised)
         | Gate_passed st fp \<Rightarrow>
             (case snd (recovery_body ar env symb ps tick point strict atr vr rsi pm st fp w1) of
                Raised \<Rightarrow> (pop_pending symb
                    (fst (recovery_body ar env symb ps tick point strict atr vr rsi pm st fp w1)),
                    Returned False)
              | Returned b \<Rightarrow>
                  (fst (recovery_body ar env symb ps tick point strict atr vr rsi pm st fp w1),
                   Returned b)))"
    by blast
  show ?thesis
  proof (cases g)
    case (Gate_passed st fp)
    let ?B = "recovery_body ar env symb ps tick point strict atr vr rsi pm st fp w1"
    have "hedge_states (rm (fst (execute_zone_recovery ar env symb ps tick point strict atr vr rsi pm mho w))) =
        hedge_states (rm (fst ?B))"
      unfolding E Gate_passed by (cases "snd ?B") (simp_all add: pop_pending_simps)
    with w1 recovery_body_dom [of w1 ar env symb ps tick point strict atr vr rsi pm st fp]
    show ?thesis by (simp only: order_trans)
  qed (use w1 in \<open>simp_all add: E pop_pending_simps\<close>)
qed

subsection \<open>What a call commits\<close>

lemma example_buy_fields:
  "ticket example_buy = 11" "symbol example_buy = ''XAUUSD''" "ptype example_buy = 0"
  "volume example_buy = 1 / 10" "price_open example_buy = 2000" "time example_buy = 1000"
  by (simp_all add: example_buy_def)

lemma example_metal: "is_metal ''XAUUSD''"
  by (simp add: is_metal_def)

lemma example_zone:
  "calculate_zone_parameters example_risk [example_buy] (1 / 100) (Some (2 / 5)) =
     Returned (1 / 5, 6 / 25)"
  by (simp add: calculate_zone_parameters_def example_buy_fields example_metal
      calculate_adaptive_factors_def atr_or_zero_def example_risk_def Let_def)

lemma example_gates:
  "entry_gates example_risk (example_env answer) ''XAUUSD'' [example_buy] example_quote (1 / 100)
     False (Some (2 / 5)) (Some 50) None (set_pending ''XAUUSD'' 1011 example_world) =
   (Gate_passed HedgeState example_buy,
    example_world\<lparr>rm := (RiskManager_init example_config)
       \<lparr>hedge_states := [''XAUUSD'' \<mapsto> HedgeState], pending_hedges := [''XAUUSD'' \<mapsto> 1011],
        time_offset := Some 0, last_offset_calc := 1011\<rparr>\<rparr>)"
  by (simp add: entry_gates_def freshness_gate_def validate_hedge_conditions_def hedge_checks_def
      get_hedge_state_def set_pending_def example_world_def example_env_def example_quote_def
      RiskManager_init_def example_config_def dict_get_def dict_index_def example_metal
      calculate_adaptive_factors_def atr_or_zero_def example_risk_def Let_def HedgeState_def
      example_buy_def)

lemma example_decision:
  "recovery_decision example_risk (example_env answer) ''XAUUSD'' [example_buy] example_quote
     (1 / 100) False (Some (2 / 5)) 1 (Some 50) (Some \<lparr>vpin = 1 / 10, reynolds_number = 100\<rparr>)
     HedgeState example_buy no_metadata = Submit example_order"
  by (simp add: recovery_decision_def example_zone hedge_level_of_def no_metadata_def
      update_volatility_def HedgeState_def zone_levels_def zone_trigger_def elastic_wait_def
      example_env_def example_quote_def dict_index_def example_buy_fields example_order_def
      int_trunc_def Let_def)

lemma example_call_body:
  "example_call answer =
     (case recovery_body example_risk (example_env answer) ''XAUUSD'' [example_buy] example_quote
        (1 / 100) False (Some (2 / 5)) 1 (Some 50) (Some \<lparr>vpin = 1 / 10, reynolds_number = 100\<rparr>)
        HedgeState example_buy example_gated of
        (w4, Raised) \<Rightarrow> (pop_pending ''XAUUSD'' w4, Returned False)
      | (w4, Returned b) \<Rightarrow> (w4, Returned b))"
proof -
  have "\<not> (t_entry (example_env answer) -
      (case pending_hedges (rm example_world) ''XAUUSD'' of None \<Rightarrow> 0 | Some t \<Rightarrow> t) < 10)"
    by (simp add: example_env_def example_world_def RiskManager_init_def)
  moreover have "t_mark (example_env answer) = 1011" by (simp add: example_env_def)
  ultimately show ?thesis
    unfolding example_call_def execute_zone_recovery_def Let_def example_gated_def
    by (simp add: example_gates)
qed

lemma example_body_confirmed:
  "recovery_body example_risk (example_env (Returned (Some 12))) ''XAUUSD'' [example_buy] example_quote
        (1 / 100) False (Some (2 / 5)) 1 (Some 50) (Some \<lparr>vpin = 1 / 10, reynolds_number = 100\<rparr>)
        HedgeState example_buy example_gated =
   (example_gated
      \<lparr>rm := (rm example_gated)\<lparr>hedge_states :=
          [''XAUUSD'' \<mapsto> HedgeState\<lparr>last_hedge_time := 1012, active_hedges := 1\<rparr>]\<rparr>,
       active_learning_trades := [11 \<mapsto> no_metadata\<lparr>current_hedge_level := Some 1\<rparr>],
       orders := [(example_order, Returned (Some 12))],
       recorded := [((''XAUUSD'', 11), SELL, 1 / 10, 1997)],
       bucket_adds := [((''XAUUSD'', 11), 12)]\<rparr>, Returned True)"
proof -
  have m: "active_learning_trades example_gated (ticket example_buy) = None"
    by (simp add: example_gated_def example_world_def)
  have u: "update_volatility 1 HedgeState = HedgeState"
    by (simp add: update_volatility_def HedgeState_def)
  show ?thesis
    unfolding recovery_body_def Let_def m option.case example_decision decision.case u
    by (simp add: confirm_hedge_def put_state_def example_env_def example_gated_def
        example_world_def hedge_level_of_def no_metadata_def example_order_def example_buy_def
        Let_def HedgeState_def)
qed

lemma example_body_refused:
  "recovery_body example_risk (example_env (Returned None)) ''XAUUSD'' [example_buy] example_quote
        (1 / 100) False (Some (2 / 5)) 1 (Some 50) (Some \<lparr>vpin = 1 / 10, reynolds_number = 100\<rparr>)
        HedgeState example_buy example_gated =
   (example_gated
      \<lparr>rm := (rm example_gated)\<lparr>pending_hedges := Map.empty\<rparr>,
       orders := [(example_order, Returned None)]\<rparr>, Returned False)"
proof -
  have m: "active_learning_trades example_gated (ticket example_buy) = None"
    by (simp add: example_gated_def example_world_def)
  have u: "update_volatility 1 HedgeState = HedgeState"
    by (simp add: update_volatility_def HedgeState_def)
  show ?thesis
    unfolding recovery_body_def Let_def m option.case example_decision decision.case u
    by (simp add: put_state_def pop_pending_def example_env_def example_gated_def
        example_world_def RiskManager_init_def)
qed

lemma example_call_confirmed:
  "example_call (Returned (Some 12)) =
   (example_gated
      \<lparr>rm := (rm example_gated)\<lparr>hedge_states :=
          [''XAUUSD'' \<mapsto> HedgeState\<lparr>last_hedge_time := 1012, active_hedges := 1\<rparr>]\<rparr>,
       active_learning_trades := [11 \<mapsto> no_metadata\<lparr>current_hedge_level := Some 1\<rparr>],
       orders := [(example_order, Returned (Some 12))],
       recorded := [((''XAUUSD'', 11), SELL, 1 / 10, 1997)],
       bucket_adds := [((''XAUUSD'', 11), 12)]\<rparr>, Returned True)"
  by (simp add: example_call_body example_body_confirmed)

lemma example_call_refused:
  "example_call (Returned None) =
   (example_gated
      \<lparr>rm := (rm example_gated)\<lparr>pending_hedges := Map.empty\<rparr>,
       orders := [(example_order, Returned None)]\<rparr>, Returned False)"
  by (simp add: example_call_body example_body_refused)

lemma example_not_debounced: "\<not> debounced (example_env answer) ''XAUUSD'' example_world"
  by (simp add: debounced_def example_env_def example_world_def RiskManager_init_def)

text \<open>
  An exception before the try block leaves the method with the marker set: with no
  position at all, sorted(positions)[0] raises after the marker was set at 1011.
\<close>

lemma example_call_without_positions:
  "snd (execute_zone_recovery example_risk (example_env answer) ''XAUUSD'' [] example_quote
     (1 / 100) False (Some (2 / 5)) 1 (Some 50) None None example_world) = Raised \<and>
   pending_hedges (rm (fst (execute_zone_recovery example_risk (example_env answer) ''XAUUSD'' []
     example_quote (1 / 100) False (Some (2 / 5)) 1 (Some 50) None None example_world)))
     ''XAUUSD'' = Some 1011"
  by (simp add: execute_zone_recovery_def entry_gates_def freshness_gate_def set_pending_def
      example_world_def example_env_def example_quote_def RiskManager_init_def dict_get_def
      Let_def)

text \<open>
  Claim C3, amended. A call within 10 seconds of the symbol's marker returns False and
  changes nothing, the marker included. Any other call that returns a value leaves
  the marker cleared, except the call that returns True after submitting an order:
  the broker confirmed that order, and the marker stays at the time set at entry.
  Nothing is said here of a call that an exception leaves.
\<close>

theorem pending_marker_after_call:
  assumes "execute_zone_recovery ar env symb ps tick point strict atr vr rsi pm mho w = (w', r)"
  shows "(debounced env symb w \<longrightarrow> w' = w \<and> r = Returned False) \<and>
         (\<not> debounced env symb w \<longrightarrow>
            (\<forall>b. r = Returned b \<longrightarrow>
               pending_hedges (rm w') =
                 (if b \<and> orders w' \<noteq> orders w
                  then (pending_hedges (rm w))(symb \<mapsto> t_mark env)
                  else (pending_hedges (rm w))(symb := None)) \<and>
               (b \<and> orders w' \<noteq> orders w \<longrightarrow>
                  (\<exists>oc. orders w' = orders w @ [oc] \<and> is_confirmed oc))))"
proof -
  have w': "w' = fst (execute_zone_recovery ar env symb ps tick point strict atr vr rsi pm mho w)"
    and r: "r = snd (execute_zone_recovery ar env symb ps tick point strict atr vr rsi pm mho w)"
    by (simp_all add: assms)
  have "w' = w \<and> r = Returned False" if "debounced env symb w"
    using execute_debounced [OF that, of ar ps tick point strict atr vr rsi pm mho] assms by simp
  moreover have "pending_hedges (rm w') =
                 (if b \<and> orders w' \<noteq> orders w
                  then (pending_hedges (rm w))(symb \<mapsto> t_mark env)
                  else (pending_hedges (rm w))(symb := None))"
    if "\<not> debounced env symb w" "r = Returned b" for b
    unfolding w' by (rule execute_pending [OF that(1)]) (use that(2) r in simp)
  moreover have "\<exists>oc. orders w' = orders w @ [oc] \<and> is_confirmed oc"
    if "r = Returned b" "b" "orders w' \<noteq> orders w" for b
    unfolding w' by (rule execute_success) (use that r w' in simp_all)
  ultimately show ?thesis by blast
qed

text \<open>
  Claim C3 as stated fails on the path of a successful submission: the call returns
  True and the marker set at entry (at time 1011) is still there.
\<close>

theorem pending_marker_counterexample:
  "snd (example_call (Returned (Some 12))) = Returned True \<and>
   pending_hedges (rm (fst (example_call (Returned (Some 12))))) ''XAUUSD'' = Some 1011"
  by (simp add: example_call_confirmed example_gated_def)

theorem pending_marker_after_call_witness:
  "pending_hedges (rm (fst (example_call (Returned None)))) ''XAUUSD'' = None \<and>
   snd (example_call (Returned None)) = Returned False \<and>
   pending_hedges (rm (fst (example_call (Returned (Some 12))))) ''XAUUSD'' = Some 1011 \<and>
   orders (fst (example_call (Returned (Some 12)))) = [(example_order, Returned (Some 12))] \<and>
   is_confirmed (example_order, Returned (Some 12))"
  using pending_marker_after_call [OF example_call_refused [unfolded example_call_def]]
    pending_marker_after_call [OF example_call_confirmed [unfolded example_call_def]]
  by (simp add: example_call_confirmed example_call_refused example_gated_def)

lemma example_pass_refused:
  "attempt_debt_reduction (example_broker False) (example_bank 8, ()) =
     ((example_bank 8, (),
       [Last_Tick ''XAUUSD'' (Returned (Some example_tick)),
        Close_Position 7 NIBBLE_SIZE (Returned False),
        Last_Tick ''GBPUSD'' (Returned (Some example_tick))]), Returned False)"
  apply (simp add: attempt_debt_reduction_def example_bank_def register_toxic_asset_def
      deposit_tithe_def bad_bank_init_def Let_def example_required example_broker_def)
  apply (simp add: example_position_def example_tick_def required_tithe_def dict_index_def NIBBLE_SIZE_def)
  done

lemma example_advance:
  "advance_hedge_level example_buy [example_buy] Map.empty =
     [11 \<mapsto> no_metadata\<lparr>current_hedge_level := Some 1\<rparr>]"
  by (simp add: advance_hedge_level_def hedge_level_of_def no_metadata_def example_buy_def)

text \<open>
  Claim C1. A call of execute_zone_recovery leaves the hedge levels of the trades as
  they were unless it handed the broker one order and the broker answered with a
  ticket; the level of the group's trade, the one of the oldest position, is then one
  above the level the call worked with. A debt-reduction pass leaves the whole ledger, pool balance and lifetime
  repaid included, as it was unless it returns True, its last call to the broker
  being the only close the broker confirmed. A refusal, a failure and an exception
  of the broker call all fall under the first alternative.
\<close>

theorem commit_only_when_confirmed:
  assumes "execute_zone_recovery ar env symb ps tick point strict atr vr rsi pm mho w = (w', r)"
    and "attempt_debt_reduction br (b, s) = ((b', s', calls), r2)"
  shows "(active_learning_trades w' = active_learning_trades w \<or>
          (\<exists>oc. orders w' = orders w @ [oc] \<and> is_confirmed oc \<and>
              active_learning_trades w' =
                advance_hedge_level (hd (sort_key time ps)) ps (active_learning_trades w))) \<and>
         (b' = b \<or>
          (r2 = Returned True \<and> calls \<noteq> [] \<and> is_success (last calls) \<and>
           filter is_success (butlast calls) = []))"
proof -
  have w': "w' = fst (execute_zone_recovery ar env symb ps tick point strict atr vr rsi pm mho w)"
    by (simp add: assms)
  have zone: "active_learning_trades w' = active_learning_trades w \<or>
          (\<exists>oc. orders w' = orders w @ [oc] \<and> is_confirmed oc \<and>
              active_learning_trades w' =
                advance_hedge_level (hd (sort_key time ps)) ps (active_learning_trades w))"
    unfolding w' by (rule execute_trades)
  from attempt_debt_reduction_shape [OF assms(2)]
  have ledger: "b' = b \<or>
          (r2 = Returned True \<and> calls \<noteq> [] \<and> is_success (last calls) \<and>
           filter is_success (butlast calls) = [])"
    by (auto simp: pass_ok_def split: if_splits)
  from zone ledger show ?thesis by (rule conjI)
qed

theorem commit_only_when_confirmed_witness:
  "active_learning_trades (fst (example_call (Returned (Some 12)))) 11 =
     Some (no_metadata\<lparr>current_hedge_level := Some 1\<rparr>) \<and>
   orders (fst (example_call (Returned (Some 12)))) = [(example_order, Returned (Some 12))] \<and>
   is_confirmed (example_order, Returned (Some 12)) \<and>
   active_learning_trades (fst (example_call (Returned None))) = Map.empty \<and>
   tithe_balance (fst (fst (attempt_debt_reduction (example_broker True) (example_bank 8, ())))) = 3 \<and>
   fst (fst (attempt_debt_reduction (example_broker False) (example_bank 8, ()))) = example_bank 8"
  using commit_only_when_confirmed [OF example_call_confirmed [unfolded example_call_def] example_pass_8]
    commit_only_when_confirmed [OF example_call_refused [unfolded example_call_def] example_pass_8]
  by (simp add: example_call_confirmed example_call_refused example_gated_def example_world_def
      example_pass_8 settle_balance example_pass_refused example_advance)
    (simp add: example_bank_def deposit_tithe_def register_toxic_asset_def bad_bank_init_def)

text \<open>
  Claim C4, amended. reset_symbol_state deletes the symbol's entry and leaves the
  other symbols alone; the next reference to the symbol creates a new entry with the
  default values (last hedge time 0, no active hedge, volatility scale 1, high
  volatility off). A reference creates the entry when it is missing and removes none, and
  neither does a call of execute_zone_recovery for any symbol.
\<close>

theorem reset_symbol_state_recreates:
  "hedge_states (reset_symbol_state symb m) symb = None \<and>
   (\<forall>other. other \<noteq> symb \<longrightarrow>
      hedge_states (reset_symbol_state symb m) other = hedge_states m other) \<and>
   fst (get_hedge_state symb (reset_symbol_state symb m)) = HedgeState \<and>
   hedge_states (snd (get_hedge_state symb (reset_symbol_state symb m))) symb = Some HedgeState \<and>
   last_hedge_time HedgeState = 0 \<and> active_hedges HedgeState = 0 \<and>
   volatility_scale HedgeState = 1 \<and> high_vol_mode HedgeState = False \<and>
   dom (hedge_states (snd (get_hedge_state symb m))) = insert symb (dom (hedge_states m)) \<and>
   dom (hedge_states (rm w)) \<subseteq>
     dom (hedge_states (rm (fst (execute_zone_recovery ar env called ps tick point strict atr vr rsi
        pm mho w))))"
proof -
  have "hedge_states (reset_symbol_state symb m) symb = None \<and>
   (\<forall>other. other \<noteq> symb \<longrightarrow>
      hedge_states (reset_symbol_state symb m) other = hedge_states m other) \<and>
   fst (get_hedge_state symb (reset_symbol_state symb m)) = HedgeState \<and>
   hedge_states (snd (get_hedge_state symb (reset_symbol_state symb m))) symb = Some HedgeState \<and>
   last_hedge_time HedgeState = 0 \<and> active_hedges HedgeState = 0 \<and>
   volatility_scale HedgeState = 1 \<and> high_vol_mode HedgeState = False \<and>
   dom (hedge_states (snd (get_hedge_state symb m))) = insert symb (dom (hedge_states m))"
    by (auto simp: reset_symbol_state_def get_hedge_state_def HedgeState_def split: option.splits)
  with execute_dom [of w ar env called ps tick point strict atr vr rsi pm mho]
  show ?thesis by blast
qed

text \<open>
  Claim C4 as stated fails: an entry created by a first reference no longer exists
  after reset_symbol_state.
\<close>

theorem reset_symbol_state_counterexample:
  "hedge_states (snd (get_hedge_state ''EURUSD'' (RiskManager_init example_config))) ''EURUSD'' =
     Some HedgeState \<and>
   hedge_states (reset_symbol_state ''EURUSD''
      (snd (get_hedge_state ''EURUSD'' (RiskManager_init example_config)))) ''EURUSD'' = None"
  by (simp add: reset_symbol_state_def get_hedge_state_def RiskManager_init_def)

theorem reset_symbol_state_recreates_witness:
  "hedge_states (reset_symbol_state ''EURUSD''
      (snd (get_hedge_state ''XAUUSD'' (snd (get_hedge_state ''EURUSD''
         (RiskManager_init example_config)))))) ''XAUUSD'' = Some HedgeState \<and>
   fst (get_hedge_state ''EURUSD'' (reset_symbol_state ''EURUSD''
      (snd (get_hedge_state ''XAUUSD'' (snd (get_hedge_state ''EURUSD''
         (RiskManager_init example_config))))))) = HedgeState"
  using reset_symbol_state_recreates [of "''EURUSD''"
      "snd (get_hedge_state ''XAUUSD'' (snd (get_hedge_state ''EURUSD''
         (RiskManager_init example_config))))"]
  by (simp add: get_hedge_state_def RiskManager_init_def)

end
